theory Spec2Isabelle
  imports Main "HOL-Library.Word" "HOL-Library.Char_ord"
begin

section \<open>Go strings\<close>

text \<open>
  A Go \<^verbatim>\<open>string\<close> is a sequence of bytes and \<^verbatim>\<open>len\<close> counts bytes, so a Go string
  is a \<^typ>\<open>string\<close> here (a list of 8-bit characters). The source's literals that
  are not ASCII are written out as their UTF-8 bytes; the code points are named beside
  each of them.

  The loops \<^verbatim>\<open>for _, r := range s\<close> of the source visit runes, not bytes. Each test they
  make compares the rune with ASCII ranges only. A byte below \<^verbatim>\<open>0x80\<close> is always decoded
  as the rune of the same value, and every byte from \<^verbatim>\<open>0x80\<close> on belongs to a rune from
  \<^verbatim>\<open>0x80\<close> on (or is decoded as \<^verbatim>\<open>U+FFFD\<close>), which fails each of these tests just as the
  byte itself does. The loops are therefore written over the bytes.
\<close>

text \<open>\<^verbatim>\<open>strings.HasPrefix(s, prefix)\<close>:
  \<^verbatim>\<open>len(s) >= len(prefix) && s[:len(prefix)] == prefix\<close>.\<close>

definition HasPrefix :: "string \<Rightarrow> string \<Rightarrow> bool" where
  "HasPrefix s pre = (length s \<ge> length pre \<and> take (length pre) s = pre)"

section \<open>pkg/barcode: the processor\<close>

subsection \<open>The string literals of the classifier\<close>

text \<open>U+672A U+77E5 ("unknown").\<close>

definition type_unknown :: string where
  "type_unknown = [CHR 0xE6, CHR 0x9C, CHR 0xAA, CHR 0xE7, CHR 0x9F, CHR 0xA5]"

text \<open>U+4EA7 U+54C1 U+6761 U+7801 ("product barcode").\<close>

definition type_product :: string where
  "type_product = [CHR 0xE4, CHR 0xBA, CHR 0xA7, CHR 0xE5, CHR 0x93, CHR 0x81,
     CHR 0xE6, CHR 0x9D, CHR 0xA1, CHR 0xE7, CHR 0xA0, CHR 0x81]"

text \<open>U+6279 U+6B21 U+6761 U+7801 ("lot barcode").\<close>

definition type_lot :: string where
  "type_lot = [CHR 0xE6, CHR 0x89, CHR 0xB9, CHR 0xE6, CHR 0xAC, CHR 0xA1,
     CHR 0xE6, CHR 0x9D, CHR 0xA1, CHR 0xE7, CHR 0xA0, CHR 0x81]"

text \<open>U+5E8F U+5217 U+53F7 U+6761 U+7801 ("serial number barcode").\<close>

definition type_serial :: string where
  "type_serial = [CHR 0xE5, CHR 0xBA, CHR 0x8F, CHR 0xE5, CHR 0x88, CHR 0x97,
     CHR 0xE5, CHR 0x8F, CHR 0xB7, CHR 0xE6, CHR 0x9D, CHR 0xA1, CHR 0xE7, CHR 0xA0, CHR 0x81]"

text \<open>U+5176 U+4ED6 U+7C7B U+578B ("other type").\<close>

definition type_other :: string where
  "type_other = [CHR 0xE5, CHR 0x85, CHR 0xB6, CHR 0xE4, CHR 0xBB, CHR 0x96,
     CHR 0xE7, CHR 0xB1, CHR 0xBB, CHR 0xE5, CHR 0x9E, CHR 0x8B]"

text \<open>The ASCII type tags.\<close>

definition type_ean8 :: string where
  "type_ean8 = ''EAN-8''"

definition type_upca :: string where
  "type_upca = ''UPC-A''"

definition type_ean13 :: string where
  "type_ean13 = ''EAN-13''"

definition type_itf14 :: string where
  "type_itf14 = ''ITF-14''"

definition type_code128 :: string where
  "type_code128 = ''Code 128''"

text \<open>The messages of \<^verbatim>\<open>generateMessage\<close> share a beginning, U+8BC6 U+522B U+4E3A
  ("recognised as"), and the word U+6761 U+7801 ("barcode") followed by U+FF0C U+6B63
  U+5728 (", now").\<close>

definition msg_head :: string where
  "msg_head = [CHR 0xE8, CHR 0xAF, CHR 0x86, CHR 0xE5, CHR 0x88, CHR 0xAB,
     CHR 0xE4, CHR 0xB8, CHR 0xBA]"

definition msg_barcode_now :: string where
  "msg_barcode_now = [CHR 0xE6, CHR 0x9D, CHR 0xA1, CHR 0xE7, CHR 0xA0, CHR 0x81,
     CHR 0xEF, CHR 0xBC, CHR 0x8C, CHR 0xE6, CHR 0xAD, CHR 0xA3, CHR 0xE5, CHR 0x9C, CHR 0xA8]"

text \<open>U+67E5 U+8BE2 ("querying"), U+4FE1 U+606F ("information"), U+9A8C U+8BC1
  ("validating"), U+5904 U+7406 ("processing"), U+8BB0 U+5F55 ("recording"),
  U+901A U+7528 ("generic").\<close>

definition w_query :: string where
  "w_query = [CHR 0xE6, CHR 0x9F, CHR 0xA5, CHR 0xE8, CHR 0xAF, CHR 0xA2]"

definition w_info :: string where
  "w_info = [CHR 0xE4, CHR 0xBF, CHR 0xA1, CHR 0xE6, CHR 0x81, CHR 0xAF]"

definition w_validate :: string where
  "w_validate = [CHR 0xE9, CHR 0xAA, CHR 0x8C, CHR 0xE8, CHR 0xAF, CHR 0x81]"

definition w_process :: string where
  "w_process = [CHR 0xE5, CHR 0xA4, CHR 0x84, CHR 0xE7, CHR 0x90, CHR 0x86]"

definition w_record :: string where
  "w_record = [CHR 0xE8, CHR 0xAE, CHR 0xB0, CHR 0xE5, CHR 0xBD, CHR 0x95]"

definition w_generic :: string where
  "w_generic = [CHR 0xE9, CHR 0x80, CHR 0x9A, CHR 0xE7, CHR 0x94, CHR 0xA8]"

definition msg_product :: string where
  "msg_product = msg_head @ take 6 type_product @ msg_barcode_now @ w_query
     @ take 6 type_product @ w_info @ ''...''"

definition msg_lot :: string where
  "msg_lot = msg_head @ take 6 type_lot @ msg_barcode_now @ w_query
     @ take 6 type_lot @ w_info @ ''...''"

definition msg_serial :: string where
  "msg_serial = msg_head @ take 9 type_serial @ msg_barcode_now @ w_validate
     @ take 9 type_serial @ ''...''"

definition msg_ean13 :: string where
  "msg_ean13 = msg_head @ type_ean13 @ msg_barcode_now @ w_validate @ ''...''"

definition msg_upca :: string where
  "msg_upca = msg_head @ type_upca @ msg_barcode_now @ w_process @ ''...''"

definition msg_ean8 :: string where
  "msg_ean8 = msg_head @ type_ean8 @ msg_barcode_now @ w_process @ ''...''"

definition msg_itf14 :: string where
  "msg_itf14 = msg_head @ type_itf14 @ msg_barcode_now @ w_process @ ''...''"

definition msg_generic :: string where
  "msg_generic = w_generic @ msg_barcode_now @ w_record @ ''...''"

subsection \<open>The predicates on characters\<close>

text \<open>\<^verbatim>\<open>isAllDigits\<close>: the loop returns false at the first character outside
  \<^verbatim>\<open>'0'..'9'\<close> and true when it runs out.\<close>

fun isAllDigits :: "string \<Rightarrow> bool" where
  "isAllDigits [] = True"
| "isAllDigits (r # s) =
     (if r < CHR ''0'' \<or> r > CHR ''9'' then False else isAllDigits s)"

text \<open>\<^verbatim>\<open>isAlphaNumeric\<close>: digits, both cases of letters, \<^verbatim>\<open>-\<close> and \<^verbatim>\<open>.\<close>.\<close>

fun isAlphaNumeric :: "string \<Rightarrow> bool" where
  "isAlphaNumeric [] = True"
| "isAlphaNumeric (r # s) =
     (if \<not> ((r \<ge> CHR ''0'' \<and> r \<le> CHR ''9'') \<or> (r \<ge> CHR ''A'' \<and> r \<le> CHR ''Z'')
            \<or> (r \<ge> CHR ''a'' \<and> r \<le> CHR ''z'') \<or> r = CHR ''-'' \<or> r = CHR ''.'')
      then False else isAlphaNumeric s)"

subsection \<open>Classification\<close>

text \<open>\<^verbatim>\<open>GetBarcodeType\<close>: the guard on the empty string, then the \<^verbatim>\<open>switch\<close>, whose
  cases are tried from the top.\<close>

definition GetBarcodeType :: "string \<Rightarrow> string" where
  "GetBarcodeType barcode =
     (if barcode = [] then type_unknown
      else if length barcode = 8 \<and> isAllDigits barcode then type_ean8
      else if length barcode = 12 \<and> isAllDigits barcode then type_upca
      else if length barcode = 13 \<and> isAllDigits barcode then type_ean13
      else if length barcode = 14 \<and> isAllDigits barcode then type_itf14
      else if isAlphaNumeric barcode then type_code128
      else if HasPrefix barcode ''PRD'' then type_product
      else if HasPrefix barcode ''LOT'' then type_lot
      else if HasPrefix barcode ''SN'' then type_serial
      else type_other)"

text \<open>\<^verbatim>\<open>generateMessage\<close>: here the prefixes are tried first.\<close>

definition generateMessage :: "string \<Rightarrow> string" where
  "generateMessage barcode =
     (if HasPrefix barcode ''PRD'' then msg_product
      else if HasPrefix barcode ''LOT'' then msg_lot
      else if HasPrefix barcode ''SN'' then msg_serial
      else if length barcode = 13 \<and> isAllDigits barcode then msg_ean13
      else if length barcode = 12 \<and> isAllDigits barcode then msg_upca
      else if length barcode = 8 \<and> isAllDigits barcode then msg_ean8
      else if length barcode = 14 \<and> isAllDigits barcode then msg_itf14
      else msg_generic)"

text \<open>\<^verbatim>\<open>BarcodeData\<close>. \<^verbatim>\<open>Length\<close> is a Go \<^verbatim>\<open>int\<close>; \<^verbatim>\<open>Timestamp\<close> is a \<^verbatim>\<open>time.Time\<close>, an
  instant counted in nanoseconds (see the scanner section).\<close>

record BarcodeData =
  Content :: string
  Length :: int
  Type :: string
  Timestamp :: int
  Status :: string
  Message :: string

text \<open>\<^verbatim>\<open>ProcessBarcode\<close>; the reading of \<^verbatim>\<open>time.Now()\<close> is the second argument.\<close>

text \<open>The status every payload is built with.\<close>

definition status_success :: string where
  "status_success = ''success''"

definition ProcessBarcode :: "string \<Rightarrow> int \<Rightarrow> BarcodeData" where
  "ProcessBarcode content timestamp =
     \<lparr>Content = content, Length = int (length content), Type = GetBarcodeType content,
      Timestamp = timestamp, Status = status_success, Message = generateMessage content\<rparr>"

section \<open>internal/scanner: the keyboard hook\<close>

subsection \<open>Time\<close>

text \<open>
  A \<^verbatim>\<open>time.Time\<close> is an instant, counted here in nanoseconds from the zero value of
  the type (the start of year 1), which is what a \<^verbatim>\<open>Hook\<close> made by \<^verbatim>\<open>NewHook\<close> holds in
  \<^verbatim>\<open>lastKeyTime\<close>. A \<^verbatim>\<open>time.Duration\<close> is an \<^verbatim>\<open>int64\<close> of nanoseconds. \<^verbatim>\<open>Sub\<close> returns the
  largest (smallest) duration when the difference does not fit, and \<^verbatim>\<open>Milliseconds\<close>
  is the integer division by \<open>10\<^sup>6\<close>, which in Go truncates towards zero.
\<close>

definition maxDuration :: int where
  "maxDuration = 2 ^ 63 - 1"

definition minDuration :: int where
  "minDuration = - (2 ^ 63)"

definition Sub :: "int \<Rightarrow> int \<Rightarrow> int" where
  "Sub t u =
     (let d = t - u
      in if d > maxDuration then maxDuration
         else if d < minDuration then minDuration
         else d)"

definition Milliseconds :: "int \<Rightarrow> int" where
  "Milliseconds d = (if d \<ge> 0 then d div 1000000 else - ((- d) div 1000000))"

subsection \<open>Configuration and state\<close>

text \<open>\<^verbatim>\<open>config.ScannerConfig\<close>; the three limits are Go \<^verbatim>\<open>int\<close>s, which are only
  compared, never computed with.\<close>

record ScannerConfig =
  TimeoutMS :: int
  MinLength :: int
  MaxLength :: int
  EnableHook :: bool

text \<open>The values \<^verbatim>\<open>setDefaults\<close> gives to the \<^verbatim>\<open>scanner.*\<close> keys.\<close>

definition default_scanner_config :: ScannerConfig where
  "default_scanner_config =
     \<lparr>TimeoutMS = 100, MinLength = 3, MaxLength = 50, EnableHook = True\<rparr>"

text \<open>
  \<^verbatim>\<open>Hook\<close>. The buffer is a \<^verbatim>\<open>strings.Builder\<close>, a sequence of bytes; \<^verbatim>\<open>handler\<close> is an
  interface value, \<open>None\<close> when it is \<^verbatim>\<open>nil\<close>. The logger and the console are written
  to but never read, and are left out.
\<close>

record 'h Hook =
  hook :: "64 word"
  barcodeBuffer :: string
  lastKeyTime :: int
  isRunning :: bool
  config :: ScannerConfig
  handler :: "'h option"

definition NewHook :: "ScannerConfig \<Rightarrow> 'h option \<Rightarrow> 'h Hook" where
  "NewHook cfg hnd =
     \<lparr>hook = 0, barcodeBuffer = [], lastKeyTime = 0, isRunning = False,
      config = cfg, handler = hnd\<rparr>"

definition HC_ACTION :: int where
  "HC_ACTION = 0"

definition WM_KEYDOWN :: "64 word" where
  "WM_KEYDOWN = 0x0100"

definition WM_KEYUP :: "64 word" where
  "WM_KEYUP = 0x0101"

subsection \<open>Virtual key codes\<close>

definition isCharacterKey :: "32 word \<Rightarrow> bool" where
  "isCharacterKey vkCode =
     ((vkCode \<ge> 0x30 \<and> vkCode \<le> 0x39) \<or>
      (vkCode \<ge> 0x41 \<and> vkCode \<le> 0x5A) \<or>
      (vkCode \<ge> 0x60 \<and> vkCode \<le> 0x69) \<or>
      vkCode = 0xBD \<or> vkCode = 0xBB \<or> vkCode = 0xDB \<or> vkCode = 0xDD \<or>
      vkCode = 0xDC \<or> vkCode = 0xBA \<or> vkCode = 0xDE \<or> vkCode = 0xBC \<or>
      vkCode = 0xBE \<or> vkCode = 0xBF)"

text \<open>\<^verbatim>\<open>byte(v)\<close> keeps the low eight bits of a \<^verbatim>\<open>uint32\<close>.\<close>

definition byte :: "32 word \<Rightarrow> char" where
  "byte v = char_of (unat v)"

definition getCharFromVirtualKey :: "32 word \<Rightarrow> char" where
  "getCharFromVirtualKey vkCode =
     (if vkCode \<ge> 0x30 \<and> vkCode \<le> 0x39 then byte vkCode
      else if vkCode \<ge> 0x41 \<and> vkCode \<le> 0x5A then byte vkCode
      else if vkCode \<ge> 0x60 \<and> vkCode \<le> 0x69 then byte (vkCode - 0x60 + 0x30)
      else if vkCode = 0xBD then CHR ''-''
      else if vkCode = 0xBB then CHR ''=''
      else if vkCode = 0xDB then CHR ''[''
      else if vkCode = 0xDD then CHR '']''
      else if vkCode = 0xDC then CHR 0x5C
      else if vkCode = 0xBA then CHR '';''
      else if vkCode = 0xDE then CHR 0x27
      else if vkCode = 0xBC then CHR '',''
      else if vkCode = 0xBE then CHR ''.''
      else if vkCode = 0xBF then CHR ''/''
      else CHR 0x00)"

subsection \<open>The hook procedure\<close>

text \<open>
  \<^verbatim>\<open>keyboardHookProc\<close>. Its arguments are \<^verbatim>\<open>nCode\<close>, \<^verbatim>\<open>wParam\<close>, the \<^verbatim>\<open>VkCode\<close> of the
  structure \<^verbatim>\<open>lParam\<close> points to, and the reading of \<^verbatim>\<open>time.Now()\<close>. It returns the hook
  after the call and the call it made to the handler, if any: the handler itself and
  the string passed to \<^verbatim>\<open>HandleBarcode\<close>. An error returned by the handler is logged
  and changes nothing. The value the procedure returns to the system comes from
  \<^verbatim>\<open>CallNextHookEx\<close> and is no part of the model.
\<close>

definition keyboardHookProc ::
  "'h Hook \<Rightarrow> int \<Rightarrow> 64 word \<Rightarrow> 32 word \<Rightarrow> int \<Rightarrow> 'h Hook \<times> ('h \<times> string) option" where
  "keyboardHookProc h nCode wParam vkCode currentTime =
     (if nCode \<ge> HC_ACTION \<and> wParam = WM_KEYDOWN then
        let timeDiff = Milliseconds (Sub currentTime (lastKeyTime h));
            h1 = (if timeDiff > TimeoutMS (config h) then h\<lparr>barcodeBuffer := []\<rparr> else h);
            h2 = h1\<lparr>lastKeyTime := currentTime\<rparr>
        in if isCharacterKey vkCode then
             (let ch = getCharFromVirtualKey vkCode
              in if ch \<noteq> CHR 0x00
                 then (h2\<lparr>barcodeBuffer := barcodeBuffer h2 @ [ch]\<rparr>, None)
                 else (h2, None))
           else if vkCode = 0x0D then
             (let barcode = barcodeBuffer h2
              in (h2\<lparr>barcodeBuffer := []\<rparr>,
                  if int (length barcode) \<ge> MinLength (config h)
                     \<and> int (length barcode) \<le> MaxLength (config h)
                  then (case handler h of None \<Rightarrow> None | Some hnd \<Rightarrow> Some (hnd, barcode))
                  else None))
           else (h2, None)
      else (h, None))"

text \<open>One call of the procedure, as the system makes it.\<close>

record HookCall =
  nCode :: int
  wParam :: "64 word"
  VkCode :: "32 word"
  now :: int

text \<open>A key-down event of the key \<open>vk\<close> at the instant \<open>t\<close>.\<close>

definition key_down :: "32 word \<Rightarrow> int \<Rightarrow> HookCall" where
  "key_down vk t = \<lparr>nCode = HC_ACTION, wParam = WM_KEYDOWN, VkCode = vk, now = t\<rparr>"

text \<open>The procedure called on a sequence of events, in order; the result is the last
  hook and the calls made to the handler, oldest first.\<close>

fun run_hook :: "'h Hook \<Rightarrow> HookCall list \<Rightarrow> 'h Hook \<times> ('h \<times> string) list" where
  "run_hook h [] = (h, [])"
| "run_hook h (e # es) =
     (let (h', out) = keyboardHookProc h (nCode e) (wParam e) (VkCode e) (now e);
          (h'', outs) = run_hook h' es
      in (h'', (case out of None \<Rightarrow> [] | Some c \<Rightarrow> [c]) @ outs))"

section \<open>internal/websocket: the hub\<close>

subsection \<open>Channels\<close>

text \<open>
  A buffered channel: the values waiting in it, oldest first, its capacity, and whether
  it has been closed. Sending on a closed channel and closing a closed channel panic.
\<close>

record 'a chan =
  buf :: "'a list"
  cap :: nat
  closed :: bool

datatype panic = SendOnClosedChannel | CloseOfClosedChannel

text \<open>\<^verbatim>\<open>make(chan T, n)\<close>.\<close>

definition make_chan :: "nat \<Rightarrow> 'a chan" where
  "make_chan n = \<lparr>buf = [], cap = n, closed = False\<rparr>"

text \<open>
  \<^verbatim>\<open>select { case ch <- v: ... default: ... }\<close>: the send is taken when the buffer has
  room, and \<open>None\<close> stands for the \<^verbatim>\<open>default\<close> branch. (A receiver that is already
  waiting takes the value at once, which leaves the buffer as a send followed by a
  receive does.)
\<close>

definition select_send :: "'a chan \<Rightarrow> 'a \<Rightarrow> panic + 'a chan option" where
  "select_send ch v =
     (if closed ch then Inl SendOnClosedChannel
      else if length (buf ch) < cap ch then Inr (Some (ch\<lparr>buf := buf ch @ [v]\<rparr>))
      else Inr None)"

text \<open>\<^verbatim>\<open>close(ch)\<close>.\<close>

definition close_chan :: "'a chan \<Rightarrow> panic + 'a chan" where
  "close_chan ch = (if closed ch then Inl CloseOfClosedChannel else Inr (ch\<lparr>closed := True\<rparr>))"

subsection \<open>Messages\<close>

text \<open>
  \<^verbatim>\<open>Message\<close>, the envelope. \<^verbatim>\<open>Data\<close> is an \<^verbatim>\<open>interface{}\<close>: \<open>None\<close> is the \<^verbatim>\<open>nil\<close>
  interface, and the two kinds of value the package stores in it are a
  \<^verbatim>\<open>map[string]string\<close> (its entries) and a \<^verbatim>\<open>*BarcodeData\<close>. The fields are named
  \<open>EnvType\<close>, \<open>EnvData\<close>, \<open>EnvTime\<close> for the source's \<^verbatim>\<open>Type\<close>, \<^verbatim>\<open>Data\<close>, \<^verbatim>\<open>Time\<close>.
\<close>

datatype data = MapData "(string \<times> string) list" | BarcodePayload BarcodeData

record Message =
  EnvType :: string
  EnvData :: "data option"
  EnvTime :: int

text \<open>
  The channels carry the bytes \<^verbatim>\<open>json.Marshal\<close> makes of an envelope; they are
  represented by the envelope itself. Marshalling does not fail on the envelopes built
  here. The keys of the JSON object follow the struct tags: \<^verbatim>\<open>data\<close> is tagged
  \<^verbatim>\<open>omitempty\<close> and is left out exactly when the interface is \<^verbatim>\<open>nil\<close>.
\<close>

definition json_keys :: "Message \<Rightarrow> string list" where
  "json_keys m =
     [''type''] @ (case EnvData m of None \<Rightarrow> [] | Some d \<Rightarrow> [''data'']) @ [''time'']"

text \<open>The greeting: \<^verbatim>\<open>WebSocket\<close>, then U+8FDE U+63A5 U+6210 U+529F U+FF0C U+7B49 U+5F85
  U+626B U+7801 U+6570 U+636E ("connected, waiting for scan data"), then three dots.\<close>

definition welcome_text :: string where
  "welcome_text = ''WebSocket'' @ [CHR 0xE8, CHR 0xBF, CHR 0x9E, CHR 0xE6, CHR 0x8E, CHR 0xA5,
     CHR 0xE6, CHR 0x88, CHR 0x90, CHR 0xE5, CHR 0x8A, CHR 0x9F, CHR 0xEF, CHR 0xBC, CHR 0x8C,
     CHR 0xE7, CHR 0xAD, CHR 0x89, CHR 0xE5, CHR 0xBE, CHR 0x85, CHR 0xE6, CHR 0x89, CHR 0xAB,
     CHR 0xE7, CHR 0xA0, CHR 0x81, CHR 0xE6, CHR 0x95, CHR 0xB0, CHR 0xE6, CHR 0x8D, CHR 0xAE]
     @ ''...''"

text \<open>The envelope \<^verbatim>\<open>welcomeMsg\<close> of \<^verbatim>\<open>Run\<close>, built at the instant \<open>t\<close>.\<close>

definition welcomeMsg :: "int \<Rightarrow> Message" where
  "welcomeMsg t =
     \<lparr>EnvType = ''welcome'', EnvData = Some (MapData [(''message'', welcome_text)]),
      EnvTime = t\<rparr>"

text \<open>The envelope \<^verbatim>\<open>message\<close> of \<^verbatim>\<open>BroadcastBarcode\<close>.\<close>

definition barcodeMsg :: "BarcodeData \<Rightarrow> int \<Rightarrow> Message" where
  "barcodeMsg barcodeData t =
     \<lparr>EnvType = ''barcode'', EnvData = Some (BarcodePayload barcodeData), EnvTime = t\<rparr>"

subsection \<open>Log lines\<close>

text \<open>A call on the hub's logger: the level, the text and the fields given with
  \<^verbatim>\<open>WithField\<close>.\<close>

datatype level = DebugLevel | InfoLevel | WarnLevel | ErrorLevel

datatype log_entry = Log level string "(string \<times> int) list"

text \<open>U+65B0 U+5BA2 U+6237 U+7AEF U+8FDE U+63A5 ("new client connected").\<close>

definition log_new_client :: string where
  "log_new_client = [CHR 0xE6, CHR 0x96, CHR 0xB0, CHR 0xE5, CHR 0xAE, CHR 0xA2,
     CHR 0xE6, CHR 0x88, CHR 0xB7, CHR 0xE7, CHR 0xAB, CHR 0xAF, CHR 0xE8, CHR 0xBF, CHR 0x9E,
     CHR 0xE6, CHR 0x8E, CHR 0xA5]"

text \<open>U+5BA2 U+6237 U+7AEF U+65AD U+5F00 U+8FDE U+63A5 ("client disconnected").\<close>

definition log_client_gone :: string where
  "log_client_gone = [CHR 0xE5, CHR 0xAE, CHR 0xA2, CHR 0xE6, CHR 0x88, CHR 0xB7,
     CHR 0xE7, CHR 0xAB, CHR 0xAF, CHR 0xE6, CHR 0x96, CHR 0xAD, CHR 0xE5, CHR 0xBC, CHR 0x80,
     CHR 0xE8, CHR 0xBF, CHR 0x9E, CHR 0xE6, CHR 0x8E, CHR 0xA5]"

text \<open>U+6761 U+7801 U+6570 U+636E U+5DF2 U+5E7F U+64AD ("barcode data broadcast").\<close>

definition log_broadcast_done :: string where
  "log_broadcast_done = [CHR 0xE6, CHR 0x9D, CHR 0xA1, CHR 0xE7, CHR 0xA0, CHR 0x81,
     CHR 0xE6, CHR 0x95, CHR 0xB0, CHR 0xE6, CHR 0x8D, CHR 0xAE, CHR 0xE5, CHR 0xB7, CHR 0xB2,
     CHR 0xE5, CHR 0xB9, CHR 0xBF, CHR 0xE6, CHR 0x92, CHR 0xAD]"

text \<open>U+5E7F U+64AD U+901A U+9053 U+5DF2 U+6EE1 U+FF0C U+4E22 U+5F03 U+6D88 U+606F
  ("broadcast channel full, message dropped").\<close>

definition log_channel_full :: string where
  "log_channel_full = [CHR 0xE5, CHR 0xB9, CHR 0xBF, CHR 0xE6, CHR 0x92, CHR 0xAD,
     CHR 0xE9, CHR 0x80, CHR 0x9A, CHR 0xE9, CHR 0x81, CHR 0x93, CHR 0xE5, CHR 0xB7, CHR 0xB2,
     CHR 0xE6, CHR 0xBB, CHR 0xA1, CHR 0xEF, CHR 0xBC, CHR 0x8C, CHR 0xE4, CHR 0xB8, CHR 0xA2,
     CHR 0xE5, CHR 0xBC, CHR 0x83, CHR 0xE6, CHR 0xB6, CHR 0x88, CHR 0xE6, CHR 0x81, CHR 0xAF]"

subsection \<open>The hub and its clients\<close>

text \<open>
  A \<^verbatim>\<open>*Client\<close> is an address, a number here. \<open>send\<close> is the store of the \<^verbatim>\<open>Client\<close>
  objects: the channel in the field \<^verbatim>\<open>send\<close> of the client at each address. The
  clients live outside the map \<^verbatim>\<open>clients\<close>, so a client that has been deleted from the
  map still has its channel. \<open>logged\<close> holds the calls made on the hub's logger, oldest
  first. The mutex guards the map against the other goroutines and has no effect on a
  single step. \<^verbatim>\<open>Close\<close> is not modelled.
\<close>

type_synonym client = nat

record Hub =
  clients :: "client \<rightharpoonup> bool"
  broadcast :: "Message chan"
  send :: "client \<Rightarrow> Message chan"
  logged :: "log_entry list"

text \<open>\<^verbatim>\<open>NewHub\<close>, and the clients as \<^verbatim>\<open>HandleWebSocket\<close> makes each of them before it
  registers it: \<^verbatim>\<open>send: make(chan []byte, 256)\<close>.\<close>

definition NewHub :: Hub where
  "NewHub =
     \<lparr>clients = Map.empty, broadcast = make_chan 256, send = (\<lambda>c. make_chan 256),
      logged = []\<rparr>"

text \<open>\<^verbatim>\<open>len(h.clients)\<close>, as the log lines report it.\<close>

definition client_count :: "Hub \<Rightarrow> int" where
  "client_count h = int (card (dom (clients h)))"

subsection \<open>The cases of \<^verbatim>\<open>Run\<close>\<close>

text \<open>\<^verbatim>\<open>case client := <-h.register\<close>, at the instant \<open>t\<close>.\<close>

definition register_case :: "client \<Rightarrow> int \<Rightarrow> Hub \<Rightarrow> panic + Hub" where
  "register_case c t h =
     (let h1 = h\<lparr>clients := (clients h)(c \<mapsto> True)\<rparr>;
          h2 = h1\<lparr>logged := logged h1 @
                 [Log InfoLevel log_new_client [(''client_count'', client_count h1)]]\<rparr>
      in case select_send (send h2 c) (welcomeMsg t) of
           Inl p \<Rightarrow> Inl p
         | Inr (Some ch) \<Rightarrow> Inr (h2\<lparr>send := (send h2)(c := ch)\<rparr>)
         | Inr None \<Rightarrow>
             (case close_chan (send h2 c) of
                Inl p \<Rightarrow> Inl p
              | Inr ch \<Rightarrow> Inr (h2\<lparr>send := (send h2)(c := ch),
                                   clients := (clients h2)(c := None)\<rparr>)))"

text \<open>\<^verbatim>\<open>case client := <-h.unregister\<close>.\<close>

definition unregister_case :: "client \<Rightarrow> Hub \<Rightarrow> panic + Hub" where
  "unregister_case c h =
     (case clients h c of
        None \<Rightarrow> Inr h
      | Some ok \<Rightarrow>
          (let h1 = h\<lparr>clients := (clients h)(c := None)\<rparr>
           in case close_chan (send h1 c) of
                Inl p \<Rightarrow> Inl p
              | Inr ch \<Rightarrow>
                  Inr (h1\<lparr>send := (send h1)(c := ch),
                          logged := logged h1 @
                            [Log InfoLevel log_client_gone [(''client_count'', client_count h1)]]\<rparr>)))"

text \<open>
  The loop of \<^verbatim>\<open>case message := <-h.broadcast\<close>. \<^verbatim>\<open>range h.clients\<close> visits every key of
  the map once, in an order the runtime chooses; \<open>ks\<close> is that order. Deleting the
  key being visited does not disturb the iteration.
\<close>

fun broadcast_loop :: "Message \<Rightarrow> client list \<Rightarrow> Hub \<Rightarrow> panic + Hub" where
  "broadcast_loop message [] h = Inr h"
| "broadcast_loop message (c # ks) h =
     (case select_send (send h c) message of
        Inl p \<Rightarrow> Inl p
      | Inr (Some ch) \<Rightarrow> broadcast_loop message ks (h\<lparr>send := (send h)(c := ch)\<rparr>)
      | Inr None \<Rightarrow>
          (case close_chan (send h c) of
             Inl p \<Rightarrow> Inl p
           | Inr ch \<Rightarrow>
               broadcast_loop message ks
                 (h\<lparr>send := (send h)(c := ch), clients := (clients h)(c := None)\<rparr>)))"

text \<open>
  What \<^verbatim>\<open>Run\<close>'s \<^verbatim>\<open>select\<close> can be handed: a client on \<^verbatim>\<open>register\<close>, a client on
  \<^verbatim>\<open>unregister\<close>, or the oldest message waiting in \<^verbatim>\<open>broadcast\<close>, with the order in
  which the clients will be visited.
\<close>

datatype request = Register client | Unregister client | Broadcast "client list"

text \<open>One turn of the loop of \<^verbatim>\<open>Run\<close>. The \<^verbatim>\<open>broadcast\<close> case cannot be taken while
  the channel is empty; the hub is then left as it is.\<close>

fun Run_step :: "request \<Rightarrow> int \<Rightarrow> Hub \<Rightarrow> panic + Hub" where
  "Run_step (Register c) t h = register_case c t h"
| "Run_step (Unregister c) t h = unregister_case c h"
| "Run_step (Broadcast ks) t h =
     (case buf (broadcast h) of
        [] \<Rightarrow> Inr h
      | message # rest \<Rightarrow>
          broadcast_loop message ks (h\<lparr>broadcast := (broadcast h)\<lparr>buf := rest\<rparr>\<rparr>))"

text \<open>\<^verbatim>\<open>Run\<close> on a sequence of requests, each with the instant at which it is served;
  a panic ends it.\<close>

fun Run :: "(request \<times> int) list \<Rightarrow> Hub \<Rightarrow> panic + Hub" where
  "Run [] h = Inr h"
| "Run ((r, t) # rs) h = (case Run_step r t h of Inl p \<Rightarrow> Inl p | Inr h' \<Rightarrow> Run rs h')"

subsection \<open>The producer's side\<close>

text \<open>\<^verbatim>\<open>BroadcastBarcode\<close>, at the instant \<open>t\<close>. It returns nothing; a full channel is
  logged as a warning.\<close>

definition BroadcastBarcode :: "BarcodeData \<Rightarrow> int \<Rightarrow> Hub \<Rightarrow> panic + Hub" where
  "BroadcastBarcode barcodeData t h =
     (case select_send (broadcast h) (barcodeMsg barcodeData t) of
        Inl p \<Rightarrow> Inl p
      | Inr (Some ch) \<Rightarrow>
          Inr (h\<lparr>broadcast := ch,
                 logged := logged h @
                   [Log DebugLevel log_broadcast_done [(''client_count'', client_count h)]]\<rparr>)
      | Inr None \<Rightarrow> Inr (h\<lparr>logged := logged h @ [Log WarnLevel log_channel_full []]\<rparr>))"

text \<open>
  \<^verbatim>\<open>handlers.BarcodeHandler.HandleBarcode\<close>, the handler the application installs in
  the hook: it builds the payload with a new processor (the clock read at \<open>t1\<close>) and
  hands it to \<^verbatim>\<open>BroadcastBarcode\<close> (the clock read at \<open>t2\<close>); the error it returns is
  always \<^verbatim>\<open>nil\<close>. Its own log line goes to the handler's logger and is left out.
\<close>

definition HandleBarcode :: "string \<Rightarrow> int \<Rightarrow> int \<Rightarrow> Hub \<Rightarrow> panic + Hub" where
  "HandleBarcode content t1 t2 h = BroadcastBarcode (ProcessBarcode content t1) t2 h"

section \<open>Predicates of the statements\<close>

text \<open>The time difference the hook procedure compares with the timeout when it is
  called at \<open>t\<close>: whole milliseconds since the last key-down event.\<close>

definition timeDiff :: "'h Hook \<Rightarrow> int \<Rightarrow> int" where
  "timeDiff h t = Milliseconds (Sub t (lastKeyTime h))"

text \<open>The buffer a key-down event at \<open>t\<close> finds once the gap has been checked.\<close>

definition pending :: "'h Hook \<Rightarrow> int \<Rightarrow> string" where
  "pending h t = (if timeDiff h t > TimeoutMS (config h) then [] else barcodeBuffer h)"

text \<open>A call that the procedure treats as a key-down event.\<close>

definition is_key_down :: "HookCall \<Rightarrow> bool" where
  "is_key_down e = (nCode e \<ge> HC_ACTION \<and> wParam e = WM_KEYDOWN)"

text \<open>Consecutive instants at most \<open>d\<close> nanoseconds apart.\<close>

fun gaps_within :: "int \<Rightarrow> int list \<Rightarrow> bool" where
  "gaps_within d (t # u # ts) = (0 \<le> u - t \<and> u - t \<le> d \<and> gaps_within d (u # ts))"
| "gaps_within d ts = True"

text \<open>A channel with room for one more value.\<close>

definition has_room :: "'a chan \<Rightarrow> bool" where
  "has_room ch = (length (buf ch) < cap ch)"

text \<open>Every client in the live set has an open channel. \<^verbatim>\<open>Run\<close> keeps it so: each of
  its cases closes a channel only together with deleting its client.\<close>

definition live_open :: "Hub \<Rightarrow> bool" where
  "live_open h = (\<forall>c. c \<in> dom (clients h) \<longrightarrow> \<not> closed (send h c))"

text \<open>
  What a broadcast of \<open>m\<close> to the clients in \<open>S\<close> should leave behind: a client of \<open>S\<close>
  with room has \<open>m\<close> at the end of its channel; a client of \<open>S\<close> without room has its
  channel closed and is out of the map; everything else is as before.
\<close>

definition deliver :: "Message \<Rightarrow> client set \<Rightarrow> Hub \<Rightarrow> Hub" where
  "deliver m S h =
     h\<lparr>send := (\<lambda>c. if c \<in> S
                      then (if has_room (send h c)
                            then (send h c)\<lparr>buf := buf (send h c) @ [m]\<rparr>
                            else (send h c)\<lparr>closed := True\<rparr>)
                      else send h c),
       clients := (\<lambda>c. if c \<in> S \<and> \<not> has_room (send h c) then None else clients h c)\<rparr>"

section \<open>The classifier\<close>

lemmas type_tag_defs = type_unknown_def type_ean8_def type_upca_def type_ean13_def
  type_itf14_def type_code128_def type_product_def type_lot_def type_serial_def type_other_def

lemma isAllDigits_iff:
  "isAllDigits s \<longleftrightarrow> (\<forall>c \<in> set s. CHR ''0'' \<le> c \<and> c \<le> CHR ''9'')"
  by (induction s) auto

lemma type_tags_distinct:
  "distinct [type_unknown, type_ean8, type_upca, type_ean13, type_itf14, type_code128,
     type_product, type_lot, type_serial, type_other]"
  by (simp add: type_tag_defs)

lemma unknown_not_listed:
  "type_unknown \<notin> {type_ean8, type_upca, type_ean13, type_itf14, type_code128,
     type_product, type_lot, type_serial, type_other}"
  using type_tags_distinct by simp

lemma GetBarcodeType_listed:
  "s \<noteq> [] \<Longrightarrow> GetBarcodeType s \<in> {type_ean8, type_upca, type_ean13, type_itf14,
     type_code128, type_product, type_lot, type_serial, type_other}"
  by (simp add: GetBarcodeType_def)

lemma GetBarcodeType_unknown_iff: "GetBarcodeType s = type_unknown \<longleftrightarrow> s = []"
proof
  assume "GetBarcodeType s = type_unknown"
  then show "s = []"
    using GetBarcodeType_listed[of s] unknown_not_listed by metis
next
  assume "s = []"
  then show "GetBarcodeType s = type_unknown"
    by (simp add: GetBarcodeType_def)
qed

lemma code128_neq_product: "type_code128 \<noteq> type_product"
  by (simp add: type_code128_def type_product_def)

lemma HasPrefix_PRD_not_digits: "HasPrefix s ''PRD'' \<Longrightarrow> \<not> isAllDigits s"
  by (cases s) (auto simp: HasPrefix_def)

text \<open>What the classifier does with the prefix \<^verbatim>\<open>PRD\<close>: the alphanumeric case stands
  above the prefix cases in the \<^verbatim>\<open>switch\<close>, so the prefix decides only for a content
  with a character outside the alphanumeric set.\<close>

lemma GetBarcodeType_PRD:
  "HasPrefix s ''PRD'' \<Longrightarrow>
     GetBarcodeType s = (if isAlphaNumeric s then type_code128 else type_product)"
  using HasPrefix_PRD_not_digits[of s] by (auto simp: GetBarcodeType_def HasPrefix_def)

text \<open>
  C1. The claim: every content that starts with \<^verbatim>\<open>PRD\<close> is classified as a product
  barcode, in particular \<^verbatim>\<open>PRD1234567890\<close> and \<^verbatim>\<open>PRD99\<close>. The code at these two inputs:
  both have the prefix, and \<^verbatim>\<open>GetBarcodeType\<close> returns \<^verbatim>\<open>Code 128\<close> for each, which is
  not the product type; \<^verbatim>\<open>generateMessage\<close>, which tries the prefixes first, calls
  \<^verbatim>\<open>PRD99\<close> a product barcode in the same payload.
\<close>

theorem PRD_prefix_classified_as_code128:
  "HasPrefix ''PRD99'' ''PRD'' \<and> GetBarcodeType ''PRD99'' = type_code128
   \<and> HasPrefix ''PRD1234567890'' ''PRD'' \<and> GetBarcodeType ''PRD1234567890'' = type_code128
   \<and> type_code128 \<noteq> type_product
   \<and> Type (ProcessBarcode ''PRD99'' t) = type_code128
   \<and> Message (ProcessBarcode ''PRD99'' t) = msg_product"
  using code128_neq_product
  by (simp add: GetBarcodeType_def HasPrefix_def generateMessage_def ProcessBarcode_def)

text \<open>
  C10. Classifying the empty sequence gives the type "unknown", although the empty
  sequence passes \<^verbatim>\<open>isAlphaNumeric\<close>; "unknown" is none of the nine types the rules can
  give, and no other content is classified as "unknown".
\<close>

theorem empty_content_is_unknown:
  "GetBarcodeType [] = type_unknown \<and> isAlphaNumeric []
   \<and> type_unknown \<notin> {type_ean8, type_upca, type_ean13, type_itf14, type_code128,
        type_product, type_lot, type_serial, type_other}
   \<and> (GetBarcodeType s = type_unknown \<longleftrightarrow> s = [])"
  using unknown_not_listed GetBarcodeType_unknown_iff[of s]
  by (simp add: GetBarcodeType_def)

section \<open>The hook procedure, case by case\<close>

lemma not_char_key_0D: "\<not> isCharacterKey 0x0D"
  by (simp add: isCharacterKey_def)

lemma byte_nonzero: "0 < unat v \<Longrightarrow> unat v < 256 \<Longrightarrow> byte v \<noteq> CHR 0x00"
  by (simp add: byte_def char_of_eq_iff take_bit_eq_mod)

lemma byte_range:
  "lo \<le> v \<Longrightarrow> v \<le> hi \<Longrightarrow> 0 < unat lo \<Longrightarrow> unat hi < 256 \<Longrightarrow> byte v \<noteq> CHR 0x00"
  by (rule byte_nonzero) (auto simp: word_le_nat_alt)

lemma byte_keypad: "0x60 \<le> v \<Longrightarrow> v \<le> 0x69 \<Longrightarrow> byte (v - 0x60 + 0x30) \<noteq> CHR 0x00"
proof -
  assume a: "0x60 \<le> v" "v \<le> 0x69"
  then have b: "unat v \<ge> 0x60" "unat v \<le> 0x69"
    by (auto simp: word_le_nat_alt)
  then have "unat (v - 0x60 + 0x30) = unat v - 0x30"
    by (simp add: unat_sub_if' unat_word_ariths word_le_nat_alt a)
  with b show ?thesis
    by (intro byte_nonzero) auto
qed

lemma char_key_nonzero: "isCharacterKey vk \<Longrightarrow> getCharFromVirtualKey vk \<noteq> CHR 0x00"
  unfolding isCharacterKey_def getCharFromVirtualKey_def
  using byte_range[of "0x30" vk "0x39"] byte_range[of "0x41" vk "0x5A"] byte_keypad[of vk]
  by (auto split: if_splits)

lemma hook_terminator:
  assumes "nC \<ge> HC_ACTION"
  shows "keyboardHookProc h nC WM_KEYDOWN 0x0D t =
     (h\<lparr>barcodeBuffer := [], lastKeyTime := t\<rparr>,
      if MinLength (config h) \<le> int (length (pending h t))
         \<and> int (length (pending h t)) \<le> MaxLength (config h)
      then map_option (\<lambda>x. (x, pending h t)) (handler h) else None)"
  using assms not_char_key_0D
  by (auto simp: keyboardHookProc_def pending_def timeDiff_def Let_def split: option.splits)

lemma hook_char_key:
  assumes "nC \<ge> HC_ACTION" "isCharacterKey vk"
  shows "keyboardHookProc h nC WM_KEYDOWN vk t =
     (h\<lparr>barcodeBuffer := pending h t @ [getCharFromVirtualKey vk], lastKeyTime := t\<rparr>, None)"
  using assms char_key_nonzero[of vk]
  by (auto simp: keyboardHookProc_def pending_def timeDiff_def Let_def)

lemma hook_other_key:
  assumes "nC \<ge> HC_ACTION" "\<not> isCharacterKey vk" "vk \<noteq> 0x0D"
  shows "keyboardHookProc h nC WM_KEYDOWN vk t =
     (h\<lparr>barcodeBuffer := pending h t, lastKeyTime := t\<rparr>, None)"
  using assms
  by (auto simp: keyboardHookProc_def pending_def timeDiff_def Let_def)

lemma hook_not_key_down:
  assumes "\<not> (nC \<ge> HC_ACTION \<and> wP = WM_KEYDOWN)"
  shows "keyboardHookProc h nC wP vk t = (h, None)"
  using assms by (auto simp: keyboardHookProc_def)

text \<open>A key-down event reads the buffer only through \<open>pending\<close>, and sets the time.\<close>

lemma hook_key_down_cases:
  assumes "nC \<ge> HC_ACTION"
  shows "keyboardHookProc h nC WM_KEYDOWN vk t =
     (if isCharacterKey vk
      then (h\<lparr>barcodeBuffer := pending h t @ [getCharFromVirtualKey vk], lastKeyTime := t\<rparr>, None)
      else if vk = 0x0D
      then (h\<lparr>barcodeBuffer := [], lastKeyTime := t\<rparr>,
            if MinLength (config h) \<le> int (length (pending h t))
               \<and> int (length (pending h t)) \<le> MaxLength (config h)
            then map_option (\<lambda>x. (x, pending h t)) (handler h) else None)
      else (h\<lparr>barcodeBuffer := pending h t, lastKeyTime := t\<rparr>, None))"
  using assms hook_char_key[of nC vk h t] hook_other_key[of nC vk h t] hook_terminator[of nC h t]
  by simp

lemma pending_after_gap:
  "timeDiff h t > TimeoutMS (config h) \<Longrightarrow> pending h t = []"
  by (simp add: pending_def)

lemma pending_emptied [simp]: "pending (h\<lparr>barcodeBuffer := []\<rparr>) t = []"
  by (simp add: pending_def)

lemma hook_gap_forgets:
  assumes "is_key_down e" "timeDiff h (now e) > TimeoutMS (config h)"
  shows "keyboardHookProc h (nCode e) (wParam e) (VkCode e) (now e) =
         keyboardHookProc (h\<lparr>barcodeBuffer := []\<rparr>) (nCode e) (wParam e) (VkCode e) (now e)"
proof -
  have k: "nCode e \<ge> HC_ACTION" "wParam e = WM_KEYDOWN"
    using assms(1) by (simp_all add: is_key_down_def)
  have p: "pending h (now e) = []"
    using assms(2) by (rule pending_after_gap)
  show ?thesis
    by (simp add: k hook_key_down_cases p)
qed

lemma hook_config [simp]: "config (fst (keyboardHookProc h nC wP vk t)) = config h"
  by (simp add: keyboardHookProc_def Let_def)

lemma hook_handler [simp]: "handler (fst (keyboardHookProc h nC wP vk t)) = handler h"
  by (simp add: keyboardHookProc_def Let_def)

lemma hook_time_key_down:
  "nC \<ge> HC_ACTION \<Longrightarrow> lastKeyTime (fst (keyboardHookProc h nC WM_KEYDOWN vk t)) = t"
  by (simp add: hook_key_down_cases)

lemma run_hook_append:
  "run_hook h (xs @ ys) =
     (fst (run_hook (fst (run_hook h xs)) ys),
      snd (run_hook h xs) @ snd (run_hook (fst (run_hook h xs)) ys))"
  by (induction xs arbitrary: h) (simp_all add: split_beta Let_def)

lemma run_hook_config [simp]: "config (fst (run_hook h es)) = config h"
  by (induction es arbitrary: h) (simp_all add: split_beta Let_def)

lemma run_hook_single:
  "run_hook h [e] =
     (fst (keyboardHookProc h (nCode e) (wParam e) (VkCode e) (now e)),
      (case snd (keyboardHookProc h (nCode e) (wParam e) (VkCode e) (now e)) of
         None \<Rightarrow> [] | Some c \<Rightarrow> [c]))"
  by (simp add: split_beta)

lemma run_hook_gap_forgets:
  assumes "is_key_down e" "timeDiff h (now e) > TimeoutMS (config h)"
  shows "run_hook h (e # es) = run_hook (h\<lparr>barcodeBuffer := []\<rparr>) (e # es)"
  using hook_gap_forgets[OF assms] by simp

section \<open>Assembling a scan\<close>

lemma Milliseconds_small:
  assumes "0 \<le> d" "d \<le> T * 1000000"
  shows "Milliseconds d \<le> T"
proof -
  have "d div 1000000 \<le> (T * 1000000) div 1000000"
    using assms(2) by (rule zdiv_mono1) simp
  then show ?thesis using assms(1) by (simp add: Milliseconds_def)
qed

lemma Sub_small:
  assumes "0 \<le> u - t"
  shows "0 \<le> Sub u t \<and> Sub u t \<le> u - t"
  using assms by (auto simp: Sub_def Let_def maxDuration_def minDuration_def)

lemma timeDiff_small:
  assumes "lastKeyTime h = t" "0 \<le> u - t" "u - t \<le> T * 1000000"
  shows "timeDiff h u \<le> T"
  unfolding timeDiff_def assms(1)
  using Sub_small[OF assms(2)] assms(3) by (intro Milliseconds_small) auto

lemma pending_no_gap:
  "timeDiff h t \<le> TimeoutMS (config h) \<Longrightarrow> pending h t = barcodeBuffer h"
  by (simp add: pending_def)

lemma Milliseconds_Sub_500: "Milliseconds (Sub (t + 500000000) t) = 500"
  by (simp add: Sub_def Let_def maxDuration_def minDuration_def Milliseconds_def)

text \<open>Character keys pressed in quick succession are appended one after the other.\<close>

lemma run_hook_burst:
  assumes "\<forall>vk \<in> set vks. isCharacterKey vk" "length ts = length vks"
    "gaps_within d (lastKeyTime h # ts)" "d \<le> TimeoutMS (config h) * 1000000"
  shows "run_hook h (map2 key_down vks ts) =
     (h\<lparr>barcodeBuffer := barcodeBuffer h @ map getCharFromVirtualKey vks,
        lastKeyTime := last (lastKeyTime h # ts)\<rparr>, [])"
  using assms
proof (induction vks arbitrary: ts h)
  case Nil
  then show ?case by simp
next
  case (Cons vk vks)
  then obtain t ts' where ts: "ts = t # ts'"
    by (cases ts) auto
  have g: "0 \<le> t - lastKeyTime h" "t - lastKeyTime h \<le> d" "gaps_within d (t # ts')"
    using Cons.prems(3) by (simp_all add: ts)
  have "timeDiff h t \<le> TimeoutMS (config h)"
    using g(1,2) Cons.prems(4) by (intro timeDiff_small[where t = "lastKeyTime h"]) auto
  then have p: "pending h t = barcodeBuffer h"
    by (rule pending_no_gap)
  let ?h1 = "h\<lparr>barcodeBuffer := barcodeBuffer h @ [getCharFromVirtualKey vk], lastKeyTime := t\<rparr>"
  have step: "keyboardHookProc h HC_ACTION WM_KEYDOWN vk t = (?h1, None)"
    using Cons.prems(1) by (simp add: hook_char_key p)
  have ih: "run_hook ?h1 (map2 key_down vks ts') =
     (?h1\<lparr>barcodeBuffer := barcodeBuffer ?h1 @ map getCharFromVirtualKey vks,
        lastKeyTime := last (lastKeyTime ?h1 # ts')\<rparr>, [])"
    using Cons.prems g(3) by (intro Cons.IH) (simp_all add: ts)
  show ?case
    by (simp add: ts key_down_def step ih[unfolded key_down_def])
qed


lemma NewHook_fields [simp]:
  "barcodeBuffer (NewHook cfg hnd) = []" "config (NewHook cfg hnd) = cfg"
  "handler (NewHook cfg hnd) = hnd" "lastKeyTime (NewHook cfg hnd) = 0"
  by (simp_all add: NewHook_def)

lemma pending_NewHook [simp]: "pending (NewHook cfg hnd) t = []"
  by (simp add: pending_def NewHook_def)

lemma pending_length_le: "length (pending h t) \<le> length (barcodeBuffer h)"
  by (simp add: pending_def)

text \<open>Whatever the procedure hands to the handler has a length within the limits, on
  every call and so along every sequence of calls.\<close>

lemma hook_output_in_range:
  assumes "snd (keyboardHookProc h nC wP vk t) = Some (x, s)"
  shows "MinLength (config h) \<le> int (length s) \<and> int (length s) \<le> MaxLength (config h)"
  using assms
  by (auto simp: keyboardHookProc_def Let_def split: if_splits option.splits)

lemma run_hook_outputs_in_range:
  assumes "c \<in> set (snd (run_hook h es))"
  shows "MinLength (config h) \<le> int (length (snd c))
         \<and> int (length (snd c)) \<le> MaxLength (config h)"
  using assms
proof (induction es arbitrary: h)
  case Nil
  then show ?case by simp
next
  case (Cons e es)
  let ?r = "keyboardHookProc h (nCode e) (wParam e) (VkCode e) (now e)"
  from Cons.prems consider
      (head) "snd ?r = Some c"
    | (tail) "c \<in> set (snd (run_hook (fst ?r) es))"
    by (auto simp: split_beta split: option.splits)
  then show ?case
  proof cases
    case head
    then show ?thesis
      using hook_output_in_range[of h "nCode e" "wParam e" "VkCode e" "now e" "fst c" "snd c"]
      by simp
  next
    case tail
    then show ?thesis
      using Cons.IH[of "fst ?r"] by simp
  qed
qed

lemma two_keys_then_terminator:
  "snd (run_hook (NewHook default_scanner_config hnd)
          [key_down 0x41 t0, key_down 0x42 t1, key_down 0x0D t2]) = []"
proof -
  let ?h0 = "NewHook default_scanner_config hnd"
  have A: "isCharacterKey 0x41" and B: "isCharacterKey 0x42"
    by (simp_all add: isCharacterKey_def)
  obtain h1 where s1: "keyboardHookProc ?h0 HC_ACTION WM_KEYDOWN 0x41 t0 = (h1, None)"
    and b1: "length (barcodeBuffer h1) = 1" and c1: "config h1 = default_scanner_config"
    by (simp add: hook_char_key A)
  obtain h2 where s2: "keyboardHookProc h1 HC_ACTION WM_KEYDOWN 0x42 t1 = (h2, None)"
    and b2: "length (barcodeBuffer h2) \<le> 2" and c2: "config h2 = default_scanner_config"
    using pending_length_le[of h1 t1] b1 c1 by (simp add: hook_char_key B)
  have "int (length (pending h2 t2)) < MinLength (config h2)"
    using pending_length_le[of h2 t2] b2 c2 by (simp add: default_scanner_config_def)
  then have s3: "snd (keyboardHookProc h2 HC_ACTION WM_KEYDOWN 0x0D t2) = None"
    by (simp add: hook_terminator)
  show ?thesis
    by (simp add: key_down_def s1 s2 s3 split_beta)
qed

text \<open>
  C3. When a key-down event of the carriage-return key reaches a hook with a handler,
  the handler is called (a payload is emitted) if and only if the length \<open>L\<close> of the
  buffer the terminator finds, the gap check of the same event having been applied,
  satisfies \<open>MinLength \<le> L \<le> MaxLength\<close>. In range, the call carries that buffer and
  the payload built from it has a length in the range. Out of range, nothing is
  emitted and the buffer is dropped, the event leaving only the time behind. The
  defaults are 3 and 50, and \<^verbatim>\<open>A\<close>, \<^verbatim>\<open>B\<close>, carriage-return into a new hook with the
  default configuration emits nothing, at whatever instants the keys arrive. Along
  every sequence of calls of the procedure, from any state of the hook, every payload
  completed has a length between \<open>MinLength\<close> and \<open>MaxLength\<close>: no other key and no
  other path hands anything to the handler.
\<close>

theorem terminator_emits_iff_length_in_range:
  "(nC \<ge> HC_ACTION \<and> handler h = Some hnd \<longrightarrow>
      (snd (keyboardHookProc h nC WM_KEYDOWN 0x0D t) \<noteq> None \<longleftrightarrow>
         MinLength (config h) \<le> int (length (pending h t))
         \<and> int (length (pending h t)) \<le> MaxLength (config h))
      \<and> (MinLength (config h) \<le> int (length (pending h t))
           \<and> int (length (pending h t)) \<le> MaxLength (config h) \<longrightarrow>
         snd (keyboardHookProc h nC WM_KEYDOWN 0x0D t) = Some (hnd, pending h t)
         \<and> Content (ProcessBarcode (pending h t) t') = pending h t
         \<and> MinLength (config h) \<le> Length (ProcessBarcode (pending h t) t')
         \<and> Length (ProcessBarcode (pending h t) t') \<le> MaxLength (config h))
      \<and> (\<not> (MinLength (config h) \<le> int (length (pending h t))
              \<and> int (length (pending h t)) \<le> MaxLength (config h)) \<longrightarrow>
         keyboardHookProc h nC WM_KEYDOWN 0x0D t =
           (h\<lparr>barcodeBuffer := [], lastKeyTime := t\<rparr>, None)))
   \<and> MinLength default_scanner_config = 3 \<and> MaxLength default_scanner_config = 50
   \<and> snd (run_hook (NewHook default_scanner_config (Some hnd'))
            [key_down 0x41 t0, key_down 0x42 t1, key_down 0x0D t2]) = []
   \<and> (\<forall>c \<in> set (snd (run_hook h es)).
        Length (ProcessBarcode (snd c) t') = int (length (snd c))
        \<and> MinLength (config h) \<le> Length (ProcessBarcode (snd c) t')
        \<and> Length (ProcessBarcode (snd c) t') \<le> MaxLength (config h))"
  using two_keys_then_terminator[of "Some hnd'" t0 t1 t2] run_hook_outputs_in_range[of _ h es]
  by (simp add: hook_terminator ProcessBarcode_def default_scanner_config_def)

theorem terminator_emits_iff_length_in_range_witness:
  "HC_ACTION \<le> 0
   \<and> handler ((NewHook default_scanner_config (Some ()))\<lparr>barcodeBuffer := ''ABC'', lastKeyTime := 1000\<rparr>) = Some ()
   \<and> snd (keyboardHookProc
        ((NewHook default_scanner_config (Some ()))\<lparr>barcodeBuffer := ''ABC'', lastKeyTime := 1000\<rparr>)
        0 WM_KEYDOWN 0x0D 2000) = Some ((), ''ABC'')
   \<and> snd (keyboardHookProc
        ((NewHook default_scanner_config (Some ()))\<lparr>barcodeBuffer := ''AB'', lastKeyTime := 1000\<rparr>)
        0 WM_KEYDOWN 0x0D 2000) = None"
proof -
  let ?H = "(NewHook default_scanner_config (Some ()))\<lparr>barcodeBuffer := ''ABC'', lastKeyTime := 1000\<rparr>"
  let ?G = "(NewHook default_scanner_config (Some ()))\<lparr>barcodeBuffer := ''AB'', lastKeyTime := 1000\<rparr>"
  have h: "HC_ACTION \<le> 0" by (simp add: HC_ACTION_def)
  have hd: "handler ?H = Some ()" "handler ?G = Some ()" by simp_all
  have p: "pending ?H 2000 = ''ABC''" "pending ?G 2000 = ''AB''"
    by (simp_all add: pending_def timeDiff_def Sub_def Milliseconds_def maxDuration_def
          minDuration_def default_scanner_config_def)
  have r: "MinLength (config ?H) \<le> int (length (pending ?H 2000))
           \<and> int (length (pending ?H 2000)) \<le> MaxLength (config ?H)"
    unfolding p by (simp add: default_scanner_config_def)
  have nr: "\<not> (MinLength (config ?G) \<le> int (length (pending ?G 2000))
           \<and> int (length (pending ?G 2000)) \<le> MaxLength (config ?G))"
    unfolding p by (simp add: default_scanner_config_def)
  have "snd (keyboardHookProc ?H 0 WM_KEYDOWN 0x0D 2000) = Some ((), pending ?H 2000)"
    using terminator_emits_iff_length_in_range[of 0 ?H "()" 2000 0 "()" 0 0 0 "[]", THEN conjunct1]
      h hd(1) r by blast
  then have a: "snd (keyboardHookProc ?H 0 WM_KEYDOWN 0x0D 2000) = Some ((), ''ABC'')"
    by (simp only: p)
  have "snd (keyboardHookProc ?G 0 WM_KEYDOWN 0x0D 2000) \<noteq> None \<longleftrightarrow>
          MinLength (config ?G) \<le> int (length (pending ?G 2000))
           \<and> int (length (pending ?G 2000)) \<le> MaxLength (config ?G)"
    using terminator_emits_iff_length_in_range[of 0 ?G "()" 2000 0 "()" 0 0 0 "[]", THEN conjunct1]
      h hd(2) by blast
  then have b: "snd (keyboardHookProc ?G 0 WM_KEYDOWN 0x0D 2000) = None"
    using nr by blast
  show ?thesis
    using h hd(1) a b by (intro conjI)
qed

text \<open>
  C9. After a key-down event of the carriage-return key the buffer is empty, from any
  state of the hook and at any instant, whether a payload was emitted or the
  candidate was rejected.
\<close>

theorem terminator_resets_buffer:
  "nC \<ge> HC_ACTION \<Longrightarrow>
     barcodeBuffer (fst (keyboardHookProc h nC WM_KEYDOWN 0x0D t)) = []
     \<and> barcodeBuffer (fst (run_hook h [key_down 0x0D t])) = []"
  by (simp add: hook_terminator key_down_def split_beta HC_ACTION_def)

theorem terminator_resets_buffer_witness:
  "HC_ACTION \<le> 0
   \<and> barcodeBuffer (fst (keyboardHookProc
        ((NewHook default_scanner_config (None :: unit option))\<lparr>barcodeBuffer := ''AB'', lastKeyTime := 1000\<rparr>)
        0 WM_KEYDOWN 0x0D 2000)) = []"
proof -
  have h: "HC_ACTION \<le> 0" by (simp add: HC_ACTION_def)
  show ?thesis
    using h terminator_resets_buffer[OF h, THEN conjunct1] by (rule conjI)
qed


lemma run_hook_after_key_down:
  assumes "is_key_down e"
  shows "lastKeyTime (fst (run_hook h (pre @ [e]))) = now e"
proof -
  have k: "nCode e \<ge> HC_ACTION" "wParam e = WM_KEYDOWN"
    using assms by (simp_all add: is_key_down_def)
  show ?thesis
    by (simp add: run_hook_append split_beta k hook_time_key_down)
qed

lemma run_hook_gap_in_sequence:
  assumes "is_key_down e1" "is_key_down e2"
    "Milliseconds (Sub (now e2) (now e1)) > TimeoutMS (config h)"
  shows "run_hook h (pre @ e1 # e2 # post) =
     (fst (run_hook ((fst (run_hook h (pre @ [e1])))\<lparr>barcodeBuffer := []\<rparr>) (e2 # post)),
      snd (run_hook h (pre @ [e1]))
        @ snd (run_hook ((fst (run_hook h (pre @ [e1])))\<lparr>barcodeBuffer := []\<rparr>) (e2 # post)))"
proof -
  let ?h1 = "fst (run_hook h (pre @ [e1]))"
  have "timeDiff ?h1 (now e2) > TimeoutMS (config ?h1)"
    using assms(3) run_hook_after_key_down[OF assms(1), of h pre] by (simp add: timeDiff_def)
  then have forget: "run_hook ?h1 (e2 # post) = run_hook (?h1\<lparr>barcodeBuffer := []\<rparr>) (e2 # post)"
    by (rule run_hook_gap_forgets[OF assms(2)])
  have "pre @ e1 # e2 # post = (pre @ [e1]) @ (e2 # post)"
    by simp
  then have "run_hook h (pre @ e1 # e2 # post) =
     (fst (run_hook ?h1 (e2 # post)), snd (run_hook h (pre @ [e1])) @ snd (run_hook ?h1 (e2 # post)))"
    by (simp only: run_hook_append)
  then show ?thesis
    by (simp only: forget)
qed

lemma key_down_is_key_down [simp]: "is_key_down (key_down vk t)"
  by (simp add: is_key_down_def key_down_def)

lemma key_chars:
  "getCharFromVirtualKey 0x30 = CHR ''0''" "getCharFromVirtualKey 0x31 = CHR ''1''"
  "getCharFromVirtualKey 0x32 = CHR ''2''" "getCharFromVirtualKey 0x33 = CHR ''3''"
  "getCharFromVirtualKey 0x34 = CHR ''4''" "getCharFromVirtualKey 0x35 = CHR ''5''"
  "getCharFromVirtualKey 0x36 = CHR ''6''" "getCharFromVirtualKey 0x37 = CHR ''7''"
  "getCharFromVirtualKey 0x38 = CHR ''8''" "getCharFromVirtualKey 0x39 = CHR ''9''"
  by (simp_all add: getCharFromVirtualKey_def byte_def char_of_eq_iff)

lemma digit_keys_are_character_keys:
  "\<forall>vk \<in> set [0x30, 0x31, 0x32, 0x33, 0x34, 0x35, 0x36, 0x37, 0x38, 0x39]. isCharacterKey vk"
  by (simp add: isCharacterKey_def)

lemma gaps_within_snoc:
  "gaps_within d (t # ts @ [u]) \<longleftrightarrow>
     gaps_within d (t # ts) \<and> 0 \<le> u - last (t # ts) \<and> u - last (t # ts) \<le> d"
  by (induction ts arbitrary: t) auto

lemma pending_empty_buffer: "barcodeBuffer h = [] \<Longrightarrow> pending h t = []"
  by (simp add: pending_def)

lemma run_hook_handler [simp]: "handler (fst (run_hook h es)) = handler h"
  by (induction es arbitrary: h) (simp_all add: split_beta Let_def)

lemma run_hook_character_keys_silent:
  "\<forall>e \<in> set es. is_key_down e \<and> isCharacterKey (VkCode e) \<Longrightarrow> snd (run_hook h es) = []"
  by (induction es arbitrary: h) (simp_all add: split_beta is_key_down_def hook_char_key)

text \<open>A burst of character keys into an empty buffer, closed by the terminator.\<close>

lemma scan_into_empty_buffer:
  assumes keys: "\<forall>k \<in> set (vk # vks). isCharacterKey k" and len: "length ts = length vks"
    and gaps: "gaps_within d (t # ts @ [tcr])" and d: "d \<le> TimeoutMS (config h) * 1000000"
    and lo: "MinLength (config h) \<le> int (length (vk # vks))"
    and hi: "int (length (vk # vks)) \<le> MaxLength (config h)"
    and empty: "barcodeBuffer h = []" and hnd: "handler h = Some hnd"
  shows "run_hook h (map2 key_down (vk # vks @ [0x0D]) (t # ts @ [tcr])) =
           (h\<lparr>barcodeBuffer := [], lastKeyTime := tcr\<rparr>,
            [(hnd, map getCharFromVirtualKey (vk # vks))])"
proof -
  define h1 where
    "h1 = h\<lparr>barcodeBuffer := [getCharFromVirtualKey vk], lastKeyTime := t\<rparr>"
  define h2 where
    "h2 = h1\<lparr>barcodeBuffer := barcodeBuffer h1 @ map getCharFromVirtualKey vks,
              lastKeyTime := last (lastKeyTime h1 # ts)\<rparr>"
  have f1: "lastKeyTime h1 = t" "config h1 = config h"
    by (simp_all add: h1_def)
  have f2: "lastKeyTime h2 = last (t # ts)" "config h2 = config h" "handler h2 = Some hnd"
    "barcodeBuffer h2 = map getCharFromVirtualKey (vk # vks)"
    "h2\<lparr>barcodeBuffer := [], lastKeyTime := tcr\<rparr> = h\<lparr>barcodeBuffer := [], lastKeyTime := tcr\<rparr>"
    by (simp_all add: h2_def h1_def hnd)
  have g: "gaps_within d (t # ts)" "0 \<le> tcr - last (t # ts)" "tcr - last (t # ts) \<le> d"
    using gaps by (simp_all add: gaps_within_snoc)
  have s1: "keyboardHookProc h HC_ACTION WM_KEYDOWN vk t = (h1, None)"
    using keys by (simp add: hook_char_key h1_def pending_empty_buffer[OF empty])
  have s2: "run_hook h1 (map2 key_down vks ts) = (h2, [])"
    unfolding h2_def using keys len g(1) d by (intro run_hook_burst) (simp_all add: f1)
  have "timeDiff h2 tcr \<le> TimeoutMS (config h2)"
    using g(2,3) d f2(1) by (intro timeDiff_small[where t = "last (t # ts)"]) (auto simp: f2(2))
  then have p: "pending h2 tcr = map getCharFromVirtualKey (vk # vks)"
    by (simp add: pending_no_gap f2(4))
  have s3: "keyboardHookProc h2 HC_ACTION WM_KEYDOWN 0x0D tcr =
              (h\<lparr>barcodeBuffer := [], lastKeyTime := tcr\<rparr>,
               Some (hnd, map getCharFromVirtualKey (vk # vks)))"
    using lo hi by (simp add: hook_terminator p f2)
  have ev: "map2 key_down (vk # vks @ [0x0D]) (t # ts @ [tcr]) =
              [key_down vk t] @ map2 key_down vks ts @ [key_down 0x0D tcr]"
    using len by simp
  have r1: "run_hook h [key_down vk t] = (h1, [])"
    by (simp add: key_down_def s1)
  have r3: "run_hook h2 [key_down 0x0D tcr] =
              (h\<lparr>barcodeBuffer := [], lastKeyTime := tcr\<rparr>,
               [(hnd, map getCharFromVirtualKey (vk # vks))])"
    by (simp add: key_down_def s3 [unfolded HC_ACTION_def key_down_def] HC_ACTION_def)
  show ?thesis
    unfolding ev run_hook_append by (simp only: r1 s2 r3 fst_conv snd_conv append_Nil)
qed

lemma thirteen_digits_scanned:
  assumes "gaps_within 50000000 [t1, t2, t3, t4, t5, t6, t7, t8, t9, t10, t11, t12, t13, tcr]"
  shows "snd (run_hook (NewHook default_scanner_config (Some hnd))
           [key_down 0x31 t1, key_down 0x32 t2, key_down 0x33 t3, key_down 0x34 t4,
            key_down 0x35 t5, key_down 0x36 t6, key_down 0x37 t7, key_down 0x38 t8,
            key_down 0x39 t9, key_down 0x30 t10, key_down 0x31 t11, key_down 0x32 t12,
            key_down 0x33 t13, key_down 0x0D tcr]) = [(hnd, ''1234567890123'')]"
proof -
  have "run_hook (NewHook default_scanner_config (Some hnd))
          (map2 key_down (0x31 # [0x32, 0x33, 0x34, 0x35, 0x36, 0x37, 0x38, 0x39, 0x30, 0x31, 0x32, 0x33] @ [0x0D])
             (t1 # [t2, t3, t4, t5, t6, t7, t8, t9, t10, t11, t12, t13] @ [tcr])) =
        ((NewHook default_scanner_config (Some hnd))\<lparr>barcodeBuffer := [], lastKeyTime := tcr\<rparr>,
         [(hnd, map getCharFromVirtualKey
                  (0x31 # [0x32, 0x33, 0x34, 0x35, 0x36, 0x37, 0x38, 0x39, 0x30, 0x31, 0x32, 0x33]))])"
    using assms digit_keys_are_character_keys
    by (intro scan_into_empty_buffer[where d = 50000000])
       (simp_all add: default_scanner_config_def)
  then show ?thesis
    by (simp add: key_chars)
qed

lemma pause_then_456:
  assumes "t4 - t3 = 500000000" "gaps_within 100000000 [t4, t5, t6, tcr]"
  shows "snd (run_hook (NewHook default_scanner_config (Some hnd))
           [key_down 0x31 t1, key_down 0x32 t2, key_down 0x33 t3,
            key_down 0x34 t4, key_down 0x35 t5, key_down 0x36 t6, key_down 0x0D tcr])
         = [(hnd, ''456'')]"
proof -
  define h0 :: "'a Hook" where "h0 = NewHook default_scanner_config (Some hnd)"
  define pre where "pre = [key_down 0x31 t1, key_down 0x32 t2]"
  define post where "post = [key_down 0x35 t5, key_down 0x36 t6, key_down 0x0D tcr]"
  define h3 where "h3 = (fst (run_hook h0 (pre @ [key_down 0x33 t3])))\<lparr>barcodeBuffer := []\<rparr>"
  have c0: "config h0 = default_scanner_config"
    by (simp add: h0_def)
  have f3: "config h3 = default_scanner_config" "handler h3 = Some hnd" "barcodeBuffer h3 = []"
    by (simp_all add: h3_def h0_def)
  have gap: "Milliseconds (Sub (now (key_down 0x34 t4)) (now (key_down 0x33 t3)))
               > TimeoutMS (config h0)"
  proof -
    have "t4 = t3 + 500000000" using assms(1) by simp
    then show ?thesis
      by (simp add: key_down_def Milliseconds_Sub_500 c0 default_scanner_config_def)
  qed
  have split: "run_hook h0 (pre @ key_down 0x33 t3 # key_down 0x34 t4 # post) =
     (fst (run_hook h3 (key_down 0x34 t4 # post)),
      snd (run_hook h0 (pre @ [key_down 0x33 t3])) @ snd (run_hook h3 (key_down 0x34 t4 # post)))"
    unfolding h3_def by (rule run_hook_gap_in_sequence[OF _ _ gap]) simp_all
  have before: "snd (run_hook h0 (pre @ [key_down 0x33 t3])) = []"
    by (rule run_hook_character_keys_silent)
       (simp add: pre_def key_down_def is_key_down_def isCharacterKey_def)
  have "run_hook h3 (map2 key_down (0x34 # [0x35, 0x36] @ [0x0D]) (t4 # [t5, t6] @ [tcr])) =
        (h3\<lparr>barcodeBuffer := [], lastKeyTime := tcr\<rparr>,
         [(hnd, map getCharFromVirtualKey (0x34 # [0x35, 0x36]))])"
    using assms(2)
    by (intro scan_into_empty_buffer[where d = 100000000])
       (simp_all add: f3 default_scanner_config_def isCharacterKey_def)
  then have after: "snd (run_hook h3 (key_down 0x34 t4 # post)) = [(hnd, ''456'')]"
    by (simp add: key_chars post_def)
  have "snd (run_hook h0 (pre @ key_down 0x33 t3 # key_down 0x34 t4 # post)) = [(hnd, ''456'')]"
    by (simp only: split snd_conv before after append_Nil)
  then show ?thesis
    by (simp add: h0_def pre_def post_def)
qed


text \<open>A gap of at least one millisecond more than the timeout is measured as above
  the timeout.\<close>

lemma timeDiff_exceeds:
  assumes "0 \<le> T" "(T + 1) * 1000000 \<le> maxDuration" "(T + 1) * 1000000 \<le> t - lastKeyTime h"
  shows "timeDiff h t > T"
proof -
  have "(T + 1) * 1000000 \<le> Sub t (lastKeyTime h)"
    using assms by (auto simp: Sub_def Let_def minDuration_def)
  then have "((T + 1) * 1000000) div 1000000 \<le> Sub t (lastKeyTime h) div 1000000"
    by (rule zdiv_mono1) simp
  moreover have "0 \<le> Sub t (lastKeyTime h)"
    using assms(1) \<open>(T + 1) * 1000000 \<le> Sub t (lastKeyTime h)\<close> by (simp add: order_trans[rotated])
  ultimately show ?thesis
    by (simp add: timeDiff_def Milliseconds_def)
qed

lemma gap_leaves_only_this_key:
  assumes "is_key_down e" "timeDiff h (now e) > TimeoutMS (config h)"
  shows "barcodeBuffer (fst (keyboardHookProc h (nCode e) (wParam e) (VkCode e) (now e))) =
           (if isCharacterKey (VkCode e) then [getCharFromVirtualKey (VkCode e)] else [])"
proof -
  have k: "nCode e \<ge> HC_ACTION" "wParam e = WM_KEYDOWN"
    using assms(1) by (simp_all add: is_key_down_def)
  show ?thesis
    by (simp add: k hook_key_down_cases pending_after_gap[OF assms(2)])
qed

lemma pause_below_one_millisecond_over:
  "snd (run_hook (NewHook default_scanner_config (Some ()))
          [key_down 0x31 63900000000000000000, key_down 0x32 63900000000010000000,
           key_down 0x33 63900000000020000000, key_down 0x34 63900000000120500000,
           key_down 0x35 63900000000130500000, key_down 0x36 63900000000140500000,
           key_down 0x0D 63900000000150500000])
     = [((), ''123456'')]"
  by code_simp

text \<open>
  C4 as claimed fails: the procedure compares the gap in whole milliseconds, the
  fraction being cut off. The keys \<^verbatim>\<open>1\<close>, \<^verbatim>\<open>2\<close>, \<^verbatim>\<open>3\<close>, a pause of 100.5 ms, which exceeds
  the default timeout of 100 ms, then \<^verbatim>\<open>4\<close>, \<^verbatim>\<open>5\<close>, \<^verbatim>\<open>6\<close> and carriage-return: the gap
  is measured as 100, the buffer is kept, and the payload is \<^verbatim>\<open>123456\<close>.
\<close>

theorem gap_below_one_millisecond_over_counterexample:
  "now (key_down 0x34 63900000000120500000) - now (key_down 0x33 63900000000020000000)
     = 100500000
   \<and> TimeoutMS default_scanner_config * 1000000 < 100500000
   \<and> Milliseconds (Sub (now (key_down 0x34 63900000000120500000))
                        (now (key_down 0x33 63900000000020000000))) = 100
   \<and> snd (run_hook (NewHook default_scanner_config (Some ()))
          [key_down 0x31 63900000000000000000, key_down 0x32 63900000000010000000,
           key_down 0x33 63900000000020000000, key_down 0x34 63900000000120500000,
           key_down 0x35 63900000000130500000, key_down 0x36 63900000000140500000,
           key_down 0x0D 63900000000150500000])
       = [((), ''123456'')]"
  using pause_below_one_millisecond_over
  by (simp add: key_down_def default_scanner_config_def Sub_def Milliseconds_def
        maxDuration_def minDuration_def)

text \<open>
  C4, amended. The gap is the time difference the procedure computes: the difference of
  the two instants in whole milliseconds, the fraction cut off (so a gap of at least
  one millisecond more than the timeout is always measured as above it).
  A key-down event that arrives with a gap above the timeout leaves in the buffer
  nothing but its own character. For two consecutive key-down events \<open>e1\<close>, \<open>e2\<close> whose
  gap so measured is above the timeout, within any sequence of calls, the hook after
  the sequence and every handler call from \<open>e2\<close> on are those of a hook whose buffer
  was empty when \<open>e2\<close> arrived: no payload completed after the gap holds a character
  accepted before it. With the default timeout of 100 ms: \<^verbatim>\<open>1\<close>, \<^verbatim>\<open>2\<close>, \<^verbatim>\<open>3\<close>, a pause of
  500 ms, then \<^verbatim>\<open>4\<close>, \<^verbatim>\<open>5\<close>, \<^verbatim>\<open>6\<close> and carriage-return, each within the timeout of the one
  before, give one handler call, with the content \<^verbatim>\<open>456\<close>.
\<close>

theorem gap_discards_earlier_input:
  "(is_key_down e \<and> timeDiff h (now e) > TimeoutMS (config h) \<longrightarrow>
      barcodeBuffer (fst (keyboardHookProc h (nCode e) (wParam e) (VkCode e) (now e))) =
        (if isCharacterKey (VkCode e) then [getCharFromVirtualKey (VkCode e)] else []))
   \<and> (is_key_down e1 \<and> is_key_down e2
        \<and> Milliseconds (Sub (now e2) (now e1)) > TimeoutMS (config h) \<longrightarrow>
      run_hook h (pre @ e1 # e2 # post) =
        (fst (run_hook ((fst (run_hook h (pre @ [e1])))\<lparr>barcodeBuffer := []\<rparr>) (e2 # post)),
         snd (run_hook h (pre @ [e1]))
           @ snd (run_hook ((fst (run_hook h (pre @ [e1])))\<lparr>barcodeBuffer := []\<rparr>) (e2 # post))))
   \<and> (0 \<le> TimeoutMS (config h) \<and> (TimeoutMS (config h) + 1) * 1000000 \<le> maxDuration
        \<and> (TimeoutMS (config h) + 1) * 1000000 \<le> u - lastKeyTime h \<longrightarrow>
      timeDiff h u > TimeoutMS (config h))
   \<and> TimeoutMS default_scanner_config = 100
   \<and> (t4 - t3 = 500000000 \<and> gaps_within 100000000 [t4, t5, t6, tcr] \<longrightarrow>
      snd (run_hook (NewHook default_scanner_config (Some hnd))
           [key_down 0x31 t1, key_down 0x32 t2, key_down 0x33 t3,
            key_down 0x34 t4, key_down 0x35 t5, key_down 0x36 t6, key_down 0x0D tcr])
        = [(hnd, ''456'')])"
  using gap_leaves_only_this_key[of e h] run_hook_gap_in_sequence[of e1 e2 h pre post]
    pause_then_456[of t4 t3 t5 t6 tcr hnd t1 t2] timeDiff_exceeds[of "TimeoutMS (config h)" u h]
  by (simp add: default_scanner_config_def)

theorem gap_discards_earlier_input_witness:
  "is_key_down (key_down 0x33 63900000000020000000)
   \<and> is_key_down (key_down 0x34 63900000000520000000)
   \<and> Milliseconds (Sub (now (key_down 0x34 63900000000520000000))
                        (now (key_down 0x33 63900000000020000000)))
       > TimeoutMS (config (NewHook default_scanner_config (Some ())))
   \<and> run_hook (NewHook default_scanner_config (Some ()))
        ([key_down 0x31 63900000000000000000, key_down 0x32 63900000000010000000]
          @ key_down 0x33 63900000000020000000 # key_down 0x34 63900000000520000000
          # [key_down 0x35 63900000000530000000, key_down 0x36 63900000000540000000,
             key_down 0x0D 63900000000550000000])
       = ((NewHook default_scanner_config (Some ()))\<lparr>lastKeyTime := 63900000000550000000\<rparr>,
          [((), ''456'')])"
proof -
  let ?H = "NewHook default_scanner_config (Some ())"
  let ?pre = "[key_down 0x31 63900000000000000000, key_down 0x32 63900000000010000000]"
  let ?e1 = "key_down 0x33 63900000000020000000"
  let ?e2 = "key_down 0x34 63900000000520000000"
  let ?post = "[key_down 0x35 63900000000530000000, key_down 0x36 63900000000540000000,
             key_down 0x0D 63900000000550000000]"
  have k1: "is_key_down ?e1" and k2: "is_key_down ?e2"
    by simp_all
  have gap: "Milliseconds (Sub (now ?e2) (now ?e1)) > TimeoutMS (config ?H)"
    by (simp add: key_down_def Sub_def Milliseconds_def maxDuration_def minDuration_def
          default_scanner_config_def)
  have rest: "(fst (run_hook ((fst (run_hook ?H (?pre @ [?e1])))\<lparr>barcodeBuffer := []\<rparr>) (?e2 # ?post)),
         snd (run_hook ?H (?pre @ [?e1]))
           @ snd (run_hook ((fst (run_hook ?H (?pre @ [?e1])))\<lparr>barcodeBuffer := []\<rparr>) (?e2 # ?post)))
        = (?H\<lparr>lastKeyTime := 63900000000550000000\<rparr>, [((), ''456'')])"
    by code_simp
  have "run_hook ?H (?pre @ ?e1 # ?e2 # ?post) =
        (fst (run_hook ((fst (run_hook ?H (?pre @ [?e1])))\<lparr>barcodeBuffer := []\<rparr>) (?e2 # ?post)),
         snd (run_hook ?H (?pre @ [?e1]))
           @ snd (run_hook ((fst (run_hook ?H (?pre @ [?e1])))\<lparr>barcodeBuffer := []\<rparr>) (?e2 # ?post)))"
    using gap_discards_earlier_input[of ?e2 ?H ?e1 ?e2 ?pre ?post 0 0 0 0 0 0 "()" 0 0,
        THEN conjunct2, THEN conjunct1] k1 k2 gap
    by blast
  then have "run_hook ?H (?pre @ ?e1 # ?e2 # ?post) =
        (?H\<lparr>lastKeyTime := 63900000000550000000\<rparr>, [((), ''456'')])"
    by (simp only: rest)
  with k1 k2 gap show ?thesis
    by (intro conjI)
qed

lemma digits_by_length:
  assumes "\<forall>c \<in> set s. CHR ''0'' \<le> c \<and> c \<le> CHR ''9''"
  shows "(length s = 8 \<longrightarrow> GetBarcodeType s = type_ean8)
       \<and> (length s = 12 \<longrightarrow> GetBarcodeType s = type_upca)
       \<and> (length s = 13 \<longrightarrow> GetBarcodeType s = type_ean13)
       \<and> (length s = 14 \<longrightarrow> GetBarcodeType s = type_itf14)"
proof -
  have "isAllDigits s" using assms by (simp add: isAllDigits_iff)
  then show ?thesis by (auto simp: GetBarcodeType_def)
qed

lemma payload_1234567890123:
  "ProcessBarcode ''1234567890123'' t =
     \<lparr>Content = ''1234567890123'', Length = 13, Type = type_ean13, Timestamp = t,
      Status = status_success, Message = msg_ean13\<rparr>"
  by (simp add: ProcessBarcode_def GetBarcodeType_def generateMessage_def HasPrefix_def)

lemma HandleBarcode_NewHub:
  "map_sum id (\<lambda>h. buf (broadcast h)) (HandleBarcode content t t' NewHub) =
     Inr [barcodeMsg (ProcessBarcode content t) t']"
  by (simp add: HandleBarcode_def BroadcastBarcode_def select_send_def NewHub_def make_chan_def)

text \<open>
  C5. A content made of the digits \<^verbatim>\<open>0\<close> to \<^verbatim>\<open>9\<close> only is classified as EAN-8 when its
  length is 8, UPC-A when 12, EAN-13 when 13 and ITF-14 when 14. Thirteen key-down
  events of the digit keys \<^verbatim>\<open>1234567890123\<close>, each at most 50 ms after the one before,
  and then carriage-return, into a new hook with the default configuration, make
  exactly one handler call, with the content \<^verbatim>\<open>1234567890123\<close>; the payload built from
  it has the type EAN-13 and the status success, and the handler of the application
  puts it into the hub's broadcast channel.
\<close>

theorem digits_classified_by_length_and_scanned:
  "((\<forall>c \<in> set s. CHR ''0'' \<le> c \<and> c \<le> CHR ''9'') \<longrightarrow>
       (length s = 8 \<longrightarrow> GetBarcodeType s = type_ean8)
       \<and> (length s = 12 \<longrightarrow> GetBarcodeType s = type_upca)
       \<and> (length s = 13 \<longrightarrow> GetBarcodeType s = type_ean13)
       \<and> (length s = 14 \<longrightarrow> GetBarcodeType s = type_itf14))
   \<and> type_ean8 = ''EAN-8'' \<and> type_upca = ''UPC-A'' \<and> type_ean13 = ''EAN-13''
   \<and> type_itf14 = ''ITF-14'' \<and> status_success = ''success''
   \<and> (gaps_within 50000000 [t1, t2, t3, t4, t5, t6, t7, t8, t9, t10, t11, t12, t13, tcr] \<longrightarrow>
        snd (run_hook (NewHook default_scanner_config (Some hnd))
           [key_down 0x31 t1, key_down 0x32 t2, key_down 0x33 t3, key_down 0x34 t4,
            key_down 0x35 t5, key_down 0x36 t6, key_down 0x37 t7, key_down 0x38 t8,
            key_down 0x39 t9, key_down 0x30 t10, key_down 0x31 t11, key_down 0x32 t12,
            key_down 0x33 t13, key_down 0x0D tcr]) = [(hnd, ''1234567890123'')])
   \<and> ProcessBarcode ''1234567890123'' t =
        \<lparr>Content = ''1234567890123'', Length = 13, Type = type_ean13, Timestamp = t,
         Status = status_success, Message = msg_ean13\<rparr>
   \<and> map_sum id (\<lambda>h. buf (broadcast h)) (HandleBarcode ''1234567890123'' t t' NewHub) =
        Inr [barcodeMsg (ProcessBarcode ''1234567890123'' t) t']"
proof -
  have a: "(\<forall>c \<in> set s. CHR ''0'' \<le> c \<and> c \<le> CHR ''9'') \<longrightarrow>
       (length s = 8 \<longrightarrow> GetBarcodeType s = type_ean8)
       \<and> (length s = 12 \<longrightarrow> GetBarcodeType s = type_upca)
       \<and> (length s = 13 \<longrightarrow> GetBarcodeType s = type_ean13)
       \<and> (length s = 14 \<longrightarrow> GetBarcodeType s = type_itf14)"
    using digits_by_length[of s] by (rule impI)
  have b: "gaps_within 50000000 [t1, t2, t3, t4, t5, t6, t7, t8, t9, t10, t11, t12, t13, tcr] \<longrightarrow>
        snd (run_hook (NewHook default_scanner_config (Some hnd))
           [key_down 0x31 t1, key_down 0x32 t2, key_down 0x33 t3, key_down 0x34 t4,
            key_down 0x35 t5, key_down 0x36 t6, key_down 0x37 t7, key_down 0x38 t8,
            key_down 0x39 t9, key_down 0x30 t10, key_down 0x31 t11, key_down 0x32 t12,
            key_down 0x33 t13, key_down 0x0D tcr]) = [(hnd, ''1234567890123'')]"
    using thirteen_digits_scanned[of t1 t2 t3 t4 t5 t6 t7 t8 t9 t10 t11 t12 t13 tcr hnd]
    by (rule impI)
  show ?thesis
    by (intro conjI a b type_ean8_def type_upca_def type_ean13_def type_itf14_def
          status_success_def payload_1234567890123 HandleBarcode_NewHub)
qed

theorem digits_classified_by_length_and_scanned_witness:
  "list_all (\<lambda>c. CHR ''0'' \<le> c \<and> c \<le> CHR ''9'') ''12345678''
   \<and> GetBarcodeType ''12345678'' = type_ean8
   \<and> GetBarcodeType ''123456789012'' = type_upca
   \<and> GetBarcodeType ''1234567890123'' = type_ean13
   \<and> GetBarcodeType ''12345678901234'' = type_itf14
   \<and> gaps_within 50000000 [63900000000000000000, 63900000000050000000,
        63900000000100000000, 63900000000150000000, 63900000000200000000,
        63900000000250000000, 63900000000300000000, 63900000000350000000,
        63900000000400000000, 63900000000450000000, 63900000000500000000,
        63900000000550000000, 63900000000600000000, 63900000000650000000]
   \<and> snd (run_hook (NewHook default_scanner_config (Some ()))
        [key_down 0x31 63900000000000000000, key_down 0x32 63900000000050000000,
         key_down 0x33 63900000000100000000, key_down 0x34 63900000000150000000,
         key_down 0x35 63900000000200000000, key_down 0x36 63900000000250000000,
         key_down 0x37 63900000000300000000, key_down 0x38 63900000000350000000,
         key_down 0x39 63900000000400000000, key_down 0x30 63900000000450000000,
         key_down 0x31 63900000000500000000, key_down 0x32 63900000000550000000,
         key_down 0x33 63900000000600000000, key_down 0x0D 63900000000650000000])
       = [((), ''1234567890123'')]"
proof -
  note T = digits_classified_by_length_and_scanned
  have d: "\<forall>c \<in> set s. CHR ''0'' \<le> c \<and> c \<le> CHR ''9''"
    if "s \<in> {''12345678'', ''123456789012'', ''1234567890123'', ''12345678901234''}" for s
    using that by auto
  have g: "gaps_within 50000000 [63900000000000000000, 63900000000050000000,
        63900000000100000000, 63900000000150000000, 63900000000200000000,
        63900000000250000000, 63900000000300000000, 63900000000350000000,
        63900000000400000000, 63900000000450000000, 63900000000500000000,
        63900000000550000000, 63900000000600000000, 63900000000650000000]"
    by simp
  have a: "GetBarcodeType ''12345678'' = type_ean8"
    using T[where s = "''12345678''", THEN conjunct1] d[of "''12345678''"] by simp
  have b: "GetBarcodeType ''123456789012'' = type_upca"
    using T[where s = "''123456789012''", THEN conjunct1] d[of "''123456789012''"] by simp
  have c: "GetBarcodeType ''1234567890123'' = type_ean13"
    using T[where s = "''1234567890123''", THEN conjunct1] d[of "''1234567890123''"] by simp
  have e: "GetBarcodeType ''12345678901234'' = type_itf14"
    using T[where s = "''12345678901234''", THEN conjunct1] d[of "''12345678901234''"] by simp
  have r: "snd (run_hook (NewHook default_scanner_config (Some ()))
        [key_down 0x31 63900000000000000000, key_down 0x32 63900000000050000000,
         key_down 0x33 63900000000100000000, key_down 0x34 63900000000150000000,
         key_down 0x35 63900000000200000000, key_down 0x36 63900000000250000000,
         key_down 0x37 63900000000300000000, key_down 0x38 63900000000350000000,
         key_down 0x39 63900000000400000000, key_down 0x30 63900000000450000000,
         key_down 0x31 63900000000500000000, key_down 0x32 63900000000550000000,
         key_down 0x33 63900000000600000000, key_down 0x0D 63900000000650000000])
       = [((), ''1234567890123'')]"
    using T[where hnd = "()", THEN conjunct2, THEN conjunct2, THEN conjunct2, THEN conjunct2,
        THEN conjunct2, THEN conjunct2, THEN conjunct1, THEN mp, OF g] .
  show ?thesis
    using a b c e g r by (intro conjI) simp_all
qed

section \<open>The hub\<close>

lemma select_send_room:
  "\<not> closed ch \<Longrightarrow> has_room ch \<Longrightarrow> select_send ch v = Inr (Some (ch\<lparr>buf := buf ch @ [v]\<rparr>))"
  by (simp add: select_send_def has_room_def)

lemma select_send_full:
  "\<not> closed ch \<Longrightarrow> \<not> has_room ch \<Longrightarrow> select_send ch v = Inr None"
  by (simp add: select_send_def has_room_def)

lemma close_chan_open: "\<not> closed ch \<Longrightarrow> close_chan ch = Inr (ch\<lparr>closed := True\<rparr>)"
  by (simp add: close_chan_def)

lemma deliver_empty [simp]: "deliver m {} h = h"
  by (simp add: deliver_def)

lemma deliver_step_room:
  assumes "c \<notin> S" "has_room (send h c)"
  shows "deliver m S (h\<lparr>send := (send h)(c := (send h c)\<lparr>buf := buf (send h c) @ [m]\<rparr>)\<rparr>)
           = deliver m (insert c S) h"
  using assms by (intro Hub.equality) (auto simp: deliver_def fun_eq_iff)

lemma deliver_step_full:
  assumes "c \<notin> S" "\<not> has_room (send h c)"
  shows "deliver m S (h\<lparr>send := (send h)(c := (send h c)\<lparr>closed := True\<rparr>),
                        clients := (clients h)(c := None)\<rparr>)
           = deliver m (insert c S) h"
  using assms by (intro Hub.equality) (auto simp: deliver_def fun_eq_iff)

lemma broadcast_loop_deliver:
  assumes "distinct ks" "\<forall>c \<in> set ks. \<not> closed (send h c)"
  shows "broadcast_loop m ks h = Inr (deliver m (set ks) h)"
  using assms
proof (induction ks arbitrary: h)
  case Nil
  then show ?case by simp
next
  case (Cons c ks)
  have op: "\<not> closed (send h c)" and notin: "c \<notin> set ks" and d: "distinct ks"
    using Cons.prems by simp_all
  show ?case
  proof (cases "has_room (send h c)")
    case True
    let ?h1 = "h\<lparr>send := (send h)(c := (send h c)\<lparr>buf := buf (send h c) @ [m]\<rparr>)\<rparr>"
    have "\<forall>c' \<in> set ks. \<not> closed (send ?h1 c')"
      using Cons.prems(2) by simp
    then have "broadcast_loop m ks ?h1 = Inr (deliver m (set ks) ?h1)"
      using d by (intro Cons.IH)
    then show ?thesis
      using True op notin by (simp add: select_send_room deliver_step_room)
  next
    case False
    let ?h1 = "h\<lparr>send := (send h)(c := (send h c)\<lparr>closed := True\<rparr>),
                 clients := (clients h)(c := None)\<rparr>"
    have "\<forall>c' \<in> set ks. \<not> closed (send ?h1 c')"
      using Cons.prems(2) notin by auto
    then have "broadcast_loop m ks ?h1 = Inr (deliver m (set ks) ?h1)"
      using d by (intro Cons.IH)
    then show ?thesis
      using False op notin by (simp add: select_send_full close_chan_open deliver_step_full)
  qed
qed

lemma deliver_live_open: "live_open h \<Longrightarrow> live_open (deliver m S h)"
  by (auto simp: live_open_def deliver_def dom_def split: if_splits)

lemma register_case_room:
  assumes "\<not> closed (send h c)" "has_room (send h c)"
  shows "register_case c t h =
     Inr (h\<lparr>clients := (clients h)(c \<mapsto> True),
            logged := logged h @ [Log InfoLevel log_new_client
               [(''client_count'', client_count (h\<lparr>clients := (clients h)(c \<mapsto> True)\<rparr>))]],
            send := (send h)(c := (send h c)\<lparr>buf := buf (send h c) @ [welcomeMsg t]\<rparr>)\<rparr>)"
  using assms by (simp add: register_case_def Let_def select_send_room)

lemma register_case_full:
  assumes "\<not> closed (send h c)" "\<not> has_room (send h c)"
  shows "register_case c t h =
     Inr (h\<lparr>logged := logged h @ [Log InfoLevel log_new_client
               [(''client_count'', client_count (h\<lparr>clients := (clients h)(c \<mapsto> True)\<rparr>))]],
            send := (send h)(c := (send h c)\<lparr>closed := True\<rparr>),
            clients := (clients h)(c := None)\<rparr>)"
  using assms by (simp add: register_case_def Let_def select_send_full close_chan_open)

lemma unregister_case_absent: "c \<notin> dom (clients h) \<Longrightarrow> unregister_case c h = Inr h"
  by (auto simp: unregister_case_def split: option.splits)

lemma unregister_case_present:
  assumes "c \<in> dom (clients h)" "\<not> closed (send h c)"
  shows "unregister_case c h =
     Inr (h\<lparr>clients := (clients h)(c := None),
            send := (send h)(c := (send h c)\<lparr>closed := True\<rparr>),
            logged := logged h @ [Log InfoLevel log_client_gone
               [(''client_count'', client_count (h\<lparr>clients := (clients h)(c := None)\<rparr>))]]\<rparr>)"
  using assms by (auto simp: unregister_case_def Let_def close_chan_open split: option.splits)

lemma BroadcastBarcode_full:
  assumes "\<not> closed (broadcast h)" "cap (broadcast h) \<le> length (buf (broadcast h))"
  shows "BroadcastBarcode d t h = Inr (h\<lparr>logged := logged h @ [Log WarnLevel log_channel_full []]\<rparr>)"
  using assms by (simp add: BroadcastBarcode_def select_send_def)


lemma NewHub_live_open: "live_open NewHub"
  by (simp add: live_open_def NewHub_def)

text \<open>\<^verbatim>\<open>Run\<close> keeps every live client's channel open and does not panic, as long as the
  clients it is handed on \<^verbatim>\<open>register\<close> have an open channel and the order of a
  broadcast lists the live clients once each.\<close>

lemma Run_step_live_open:
  assumes "live_open h"
    and "case r of Register c \<Rightarrow> \<not> closed (send h c)
                 | Unregister c \<Rightarrow> True
                 | Broadcast ks \<Rightarrow> distinct ks \<and> set ks = dom (clients h)"
  shows "\<exists>h'. Run_step r t h = Inr h' \<and> live_open h'"
proof (cases r)
  case (Register c)
  then have op: "\<not> closed (send h c)" using assms(2) by simp
  show ?thesis
  proof (cases "has_room (send h c)")
    case True
    then show ?thesis
      using assms(1) op Register
      by (auto simp: register_case_room live_open_def)
  next
    case False
    then show ?thesis
      using assms(1) op Register
      by (auto simp: register_case_full live_open_def)
  qed
next
  case (Unregister c)
  show ?thesis
  proof (cases "c \<in> dom (clients h)")
    case True
    then have "\<not> closed (send h c)" using assms(1) by (simp add: live_open_def)
    then show ?thesis
      using True assms(1) Unregister
      by (auto simp: unregister_case_present live_open_def)
  next
    case False
    then show ?thesis
      using assms(1) Unregister by (simp add: unregister_case_absent)
  qed
next
  case (Broadcast ks)
  then have o: "distinct ks" "set ks = dom (clients h)" using assms(2) by simp_all
  show ?thesis
  proof (cases "buf (broadcast h)")
    case Nil
    then show ?thesis using assms(1) Broadcast by simp
  next
    case (Cons m rest)
    let ?h0 = "h\<lparr>broadcast := (broadcast h)\<lparr>buf := rest\<rparr>\<rparr>"
    have l0: "live_open ?h0" using assms(1) by (simp add: live_open_def)
    then have "\<forall>c \<in> set ks. \<not> closed (send ?h0 c)"
      using o(2) by (simp add: live_open_def)
    then have "broadcast_loop m ks ?h0 = Inr (deliver m (set ks) ?h0)"
      using o(1) by (intro broadcast_loop_deliver)
    then show ?thesis
      using Broadcast Cons deliver_live_open[OF l0] by simp
  qed
qed

lemma Run_step_broadcast:
  assumes "live_open h" "distinct ks" "set ks = dom (clients h)" "buf (broadcast h) = m # rest"
  shows "Run_step (Broadcast ks) t h =
           Inr (deliver m (dom (clients h)) (h\<lparr>broadcast := (broadcast h)\<lparr>buf := rest\<rparr>\<rparr>))"
proof -
  let ?h0 = "h\<lparr>broadcast := (broadcast h)\<lparr>buf := rest\<rparr>\<rparr>"
  have "\<forall>c \<in> set ks. \<not> closed (send ?h0 c)"
    using assms(1,3) by (simp add: live_open_def)
  then have "broadcast_loop m ks ?h0 = Inr (deliver m (set ks) ?h0)"
    using assms(2) by (intro broadcast_loop_deliver)
  then show ?thesis
    using assms(3,4) by simp
qed

text \<open>
  C2 as claimed fails: the welcome envelope has a data payload. Registering client 0
  in a new hub at the instant 7 puts exactly one envelope into its channel, whose
  \<^verbatim>\<open>Data\<close> is not \<^verbatim>\<open>nil\<close> and whose JSON object has the key \<^verbatim>\<open>data\<close>.
\<close>

theorem welcome_has_data_counterexample:
  "map_sum id (\<lambda>h. buf (send h 0)) (Run_step (Register 0) 7 NewHub) = Inr [welcomeMsg 7]
   \<and> EnvData (welcomeMsg 7) \<noteq> None
   \<and> json_keys (welcomeMsg 7) = [''type'', ''data'', ''time'']"
  by (simp add: register_case_def select_send_def NewHub_def make_chan_def Let_def
        welcomeMsg_def json_keys_def)

text \<open>
  C2, amended. A register turn for a client whose channel is open and has room appends
  exactly the welcome envelope to that channel and changes no other channel; when the
  channel is full it appends nothing and closes it. The welcome envelope has the type
  \<^verbatim>\<open>welcome\<close>, the instant of the turn as its time, and a data payload: a map with the
  single entry \<^verbatim>\<open>message\<close>, the fixed greeting. Its JSON object has the keys
  \<^verbatim>\<open>type\<close>, \<^verbatim>\<open>data\<close> and \<^verbatim>\<open>time\<close>.
\<close>

theorem welcome_carries_greeting_in_data:
  "(\<not> closed (send h c) \<and> has_room (send h c) \<longrightarrow>
      (\<exists>h'. Run_step (Register c) t h = Inr h'
         \<and> send h' = (send h)(c := (send h c)\<lparr>buf := buf (send h c) @ [welcomeMsg t]\<rparr>)))
   \<and> (\<not> closed (send h c) \<and> \<not> has_room (send h c) \<longrightarrow>
      (\<exists>h'. Run_step (Register c) t h = Inr h'
         \<and> send h' = (send h)(c := (send h c)\<lparr>closed := True\<rparr>)))
   \<and> EnvType (welcomeMsg t) = ''welcome''
   \<and> EnvData (welcomeMsg t) = Some (MapData [(''message'', welcome_text)])
   \<and> EnvTime (welcomeMsg t) = t
   \<and> json_keys (welcomeMsg t) = [''type'', ''data'', ''time'']"
  by (simp add: register_case_room register_case_full welcomeMsg_def json_keys_def)

theorem welcome_carries_greeting_in_data_witness:
  "\<not> closed (send NewHub 0) \<and> has_room (send NewHub 0)
   \<and> (\<exists>h'. Run_step (Register 0) 7 NewHub = Inr h'
         \<and> send h' 0 = \<lparr>buf = [welcomeMsg 7], cap = 256, closed = False\<rparr>)"
proof -
  have a: "\<not> closed (send NewHub 0)" and b: "has_room (send NewHub 0)"
    by (simp_all add: NewHub_def make_chan_def has_room_def)
  obtain h' where h': "Run_step (Register 0) 7 NewHub = Inr h'"
      "send h' = (send NewHub)(0 := (send NewHub 0)\<lparr>buf := buf (send NewHub 0) @ [welcomeMsg 7]\<rparr>)"
    using welcome_carries_greeting_in_data[of NewHub 0 7, THEN conjunct1] a b by blast
  have "send h' 0 = \<lparr>buf = [welcomeMsg 7], cap = 256, closed = False\<rparr>"
    by (simp add: h'(2) NewHub_def make_chan_def)
  with a b h'(1) show ?thesis by blast
qed

text \<open>
  C6. A broadcast turn of \<^verbatim>\<open>Run\<close>, taken in a hub whose live clients all have an open
  channel, with the message \<open>m\<close> at the head of the broadcast channel, whatever the
  order \<open>ks\<close> in which the clients are visited: it does not panic; every live client
  whose channel has room stays live and has \<open>m\<close> appended to its channel; every live
  client whose channel is full is removed from the live set and its channel is closed,
  nothing being appended; a client that is not live is left untouched, and when it is
  registered after the broadcast its channel gains the welcome message only, not \<open>m\<close>.
\<close>

theorem broadcast_delivers_or_drops:
  "live_open h \<and> distinct ks \<and> set ks = dom (clients h) \<and> buf (broadcast h) = m # rest \<longrightarrow>
     (\<exists>h'. Run_step (Broadcast ks) t h = Inr h'
        \<and> (\<forall>c. c \<in> dom (clients h) \<and> has_room (send h c) \<longrightarrow>
              c \<in> dom (clients h') \<and> send h' c = (send h c)\<lparr>buf := buf (send h c) @ [m]\<rparr>)
        \<and> (\<forall>c. c \<in> dom (clients h) \<and> \<not> has_room (send h c) \<longrightarrow>
              c \<notin> dom (clients h') \<and> send h' c = (send h c)\<lparr>closed := True\<rparr>)
        \<and> (\<forall>c. c \<notin> dom (clients h) \<longrightarrow> c \<notin> dom (clients h') \<and> send h' c = send h c)
        \<and> broadcast h' = (broadcast h)\<lparr>buf := rest\<rparr> \<and> logged h' = logged h
        \<and> live_open h'
        \<and> (\<forall>c u. c \<notin> dom (clients h) \<and> \<not> closed (send h c) \<and> has_room (send h c) \<longrightarrow>
              (\<exists>h''. Run_step (Register c) u h' = Inr h''
                 \<and> buf (send h'' c) = buf (send h c) @ [welcomeMsg u])))"
proof (intro impI, elim conjE)
  assume a: "live_open h" "distinct ks" "set ks = dom (clients h)" "buf (broadcast h) = m # rest"
  let ?h0 = "h\<lparr>broadcast := (broadcast h)\<lparr>buf := rest\<rparr>\<rparr>"
  let ?h' = "deliver m (dom (clients h)) ?h0"
  have step: "Run_step (Broadcast ks) t h = Inr ?h'"
    using a by (rule Run_step_broadcast)
  have l0: "live_open ?h0" using a(1) by (simp add: live_open_def)
  have p1: "\<forall>c. c \<in> dom (clients h) \<and> has_room (send h c) \<longrightarrow>
              c \<in> dom (clients ?h') \<and> send ?h' c = (send h c)\<lparr>buf := buf (send h c) @ [m]\<rparr>"
    by (auto simp: deliver_def dom_def split: if_splits)
  have p2: "\<forall>c. c \<in> dom (clients h) \<and> \<not> has_room (send h c) \<longrightarrow>
              c \<notin> dom (clients ?h') \<and> send ?h' c = (send h c)\<lparr>closed := True\<rparr>"
    by (auto simp: deliver_def dom_def split: if_splits)
  have p3: "\<forall>c. c \<notin> dom (clients h) \<longrightarrow> c \<notin> dom (clients ?h') \<and> send ?h' c = send h c"
    by (auto simp: deliver_def dom_def split: if_splits)
  have p4: "broadcast ?h' = (broadcast h)\<lparr>buf := rest\<rparr>" "logged ?h' = logged h"
    by (simp_all add: deliver_def)
  have p5: "live_open ?h'"
    using l0 by (rule deliver_live_open)
  have p6: "\<forall>c u. c \<notin> dom (clients h) \<and> \<not> closed (send h c) \<and> has_room (send h c) \<longrightarrow>
              (\<exists>h''. Run_step (Register c) u ?h' = Inr h''
                 \<and> buf (send h'' c) = buf (send h c) @ [welcomeMsg u])"
  proof (intro allI impI, elim conjE)
    fix c u
    assume c: "c \<notin> dom (clients h)" "\<not> closed (send h c)" "has_room (send h c)"
    then have s: "send ?h' c = send h c" using p3 by blast
    then have "\<not> closed (send ?h' c)" "has_room (send ?h' c)" using c by simp_all
    then show "\<exists>h''. Run_step (Register c) u ?h' = Inr h''
                 \<and> buf (send h'' c) = buf (send h c) @ [welcomeMsg u]"
      using s by (simp add: register_case_room)
  qed
  show "\<exists>h'. Run_step (Broadcast ks) t h = Inr h'
        \<and> (\<forall>c. c \<in> dom (clients h) \<and> has_room (send h c) \<longrightarrow>
              c \<in> dom (clients h') \<and> send h' c = (send h c)\<lparr>buf := buf (send h c) @ [m]\<rparr>)
        \<and> (\<forall>c. c \<in> dom (clients h) \<and> \<not> has_room (send h c) \<longrightarrow>
              c \<notin> dom (clients h') \<and> send h' c = (send h c)\<lparr>closed := True\<rparr>)
        \<and> (\<forall>c. c \<notin> dom (clients h) \<longrightarrow> c \<notin> dom (clients h') \<and> send h' c = send h c)
        \<and> broadcast h' = (broadcast h)\<lparr>buf := rest\<rparr> \<and> logged h' = logged h
        \<and> live_open h'
        \<and> (\<forall>c u. c \<notin> dom (clients h) \<and> \<not> closed (send h c) \<and> has_room (send h c) \<longrightarrow>
              (\<exists>h''. Run_step (Register c) u h' = Inr h''
                 \<and> buf (send h'' c) = buf (send h c) @ [welcomeMsg u]))"
    using step p1 p2 p3 p4 p5 p6 by (intro exI[of _ ?h'] conjI)
qed

theorem broadcast_delivers_or_drops_witness:
  "live_open (NewHub\<lparr>clients := [0 \<mapsto> True, 1 \<mapsto> True, 2 \<mapsto> True],
        send := (send NewHub)(1 := \<lparr>buf = replicate 256 (welcomeMsg 0), cap = 256, closed = False\<rparr>),
        broadcast := (broadcast NewHub)\<lparr>buf := [barcodeMsg (ProcessBarcode ''12345678'' 5) 6]\<rparr>\<rparr>)
   \<and> distinct [2, 0, 1 :: nat]
   \<and> set [2, 0, 1] = dom (clients (NewHub\<lparr>clients := [0 \<mapsto> True, 1 \<mapsto> True, 2 \<mapsto> True],
        send := (send NewHub)(1 := \<lparr>buf = replicate 256 (welcomeMsg 0), cap = 256, closed = False\<rparr>),
        broadcast := (broadcast NewHub)\<lparr>buf := [barcodeMsg (ProcessBarcode ''12345678'' 5) 6]\<rparr>\<rparr>))
   \<and> (\<exists>h'. Run_step (Broadcast [2, 0, 1]) 9
         (NewHub\<lparr>clients := [0 \<mapsto> True, 1 \<mapsto> True, 2 \<mapsto> True],
            send := (send NewHub)(1 := \<lparr>buf = replicate 256 (welcomeMsg 0), cap = 256, closed = False\<rparr>),
            broadcast := (broadcast NewHub)\<lparr>buf := [barcodeMsg (ProcessBarcode ''12345678'' 5) 6]\<rparr>\<rparr>)
         = Inr h'
       \<and> buf (send h' 0) = [barcodeMsg (ProcessBarcode ''12345678'' 5) 6]
       \<and> buf (send h' 2) = [barcodeMsg (ProcessBarcode ''12345678'' 5) 6]
       \<and> closed (send h' 1) \<and> 1 \<notin> dom (clients h')
       \<and> 0 \<in> dom (clients h') \<and> 2 \<in> dom (clients h')
       \<and> buf (send h' 3) = [])"
proof -
  let ?M = "barcodeMsg (ProcessBarcode ''12345678'' 5) 6"
  let ?H = "NewHub\<lparr>clients := [0 \<mapsto> True, 1 \<mapsto> True, 2 \<mapsto> True],
        send := (send NewHub)(1 := \<lparr>buf = replicate 256 (welcomeMsg 0), cap = 256, closed = False\<rparr>),
        broadcast := (broadcast NewHub)\<lparr>buf := [?M]\<rparr>\<rparr>"
  have a: "live_open ?H"
    by (simp add: live_open_def NewHub_def make_chan_def)
  have b: "distinct [2, 0, 1 :: nat]"
    by simp
  have c: "set [2, 0, 1] = dom (clients ?H)"
    by auto
  have d: "buf (broadcast ?H) = ?M # []"
    by simp
  have r: "has_room (send ?H 0)" "has_room (send ?H 2)" "\<not> has_room (send ?H 1)"
    by (simp_all add: has_room_def NewHub_def make_chan_def)
  have s: "send ?H 0 = make_chan 256" "send ?H 2 = make_chan 256" "send ?H 3 = make_chan 256"
    by (simp_all add: NewHub_def)
  have mem: "0 \<in> dom (clients ?H)" "1 \<in> dom (clients ?H)" "2 \<in> dom (clients ?H)"
    "3 \<notin> dom (clients ?H)"
    by simp_all
  obtain h' where h': "Run_step (Broadcast [2, 0, 1]) 9 ?H = Inr h'"
    and p1: "\<forall>c. c \<in> dom (clients ?H) \<and> has_room (send ?H c) \<longrightarrow>
              c \<in> dom (clients h') \<and> send h' c = (send ?H c)\<lparr>buf := buf (send ?H c) @ [?M]\<rparr>"
    and p2: "\<forall>c. c \<in> dom (clients ?H) \<and> \<not> has_room (send ?H c) \<longrightarrow>
              c \<notin> dom (clients h') \<and> send h' c = (send ?H c)\<lparr>closed := True\<rparr>"
    and p3: "\<forall>c. c \<notin> dom (clients ?H) \<longrightarrow> c \<notin> dom (clients h') \<and> send h' c = send ?H c"
    using broadcast_delivers_or_drops[of ?H "[2, 0, 1]" ?M "[]" 9] a b c d by blast
  have q0: "0 \<in> dom (clients h')" "send h' 0 = (send ?H 0)\<lparr>buf := buf (send ?H 0) @ [?M]\<rparr>"
    using p1 mem(1) r(1) by blast+
  have q2: "2 \<in> dom (clients h')" "send h' 2 = (send ?H 2)\<lparr>buf := buf (send ?H 2) @ [?M]\<rparr>"
    using p1 mem(3) r(2) by blast+
  have q1: "1 \<notin> dom (clients h')" "send h' 1 = (send ?H 1)\<lparr>closed := True\<rparr>"
    using p2 mem(2) r(3) by blast+
  have q3: "send h' 3 = send ?H 3"
    using p3 mem(4) by blast
  have e0: "buf (send h' 0) = [?M]"
    unfolding q0(2) s(1) by (simp add: make_chan_def)
  have e2: "buf (send h' 2) = [?M]"
    unfolding q2(2) s(2) by (simp add: make_chan_def)
  have e1: "closed (send h' 1)"
    unfolding q1(2) by simp
  have e3: "buf (send h' 3) = []"
    unfolding q3 s(3) by (simp add: make_chan_def)
  note e = e0 e2 e1 e3
  show ?thesis
    using a b c h' e q1(1) q0(1) q2(1) by blast
qed

text \<open>
  C7. Unregistering a client whose channel, if it is live, is open (as \<^verbatim>\<open>Run\<close> keeps
  it): the turn does not panic; a second unregister turn on the hub it leaves returns
  that same hub; so two turns equal one. A live client is removed and its channel is
  closed, once: the second turn closes nothing, since closing a closed channel would
  panic. For a client that is not live the hub is unchanged.
\<close>

theorem unregister_is_idempotent:
  "(c \<in> dom (clients h) \<longrightarrow> \<not> closed (send h c)) \<longrightarrow>
     (\<exists>h'. Run_step (Unregister c) t h = Inr h'
        \<and> Run_step (Unregister c) u h' = Inr h'
        \<and> Run [(Unregister c, t), (Unregister c, u)] h = Run [(Unregister c, t)] h
        \<and> c \<notin> dom (clients h')
        \<and> (c \<in> dom (clients h) \<longrightarrow>
              clients h' = (clients h)(c := None)
              \<and> send h' = (send h)(c := (send h c)\<lparr>closed := True\<rparr>)
              \<and> broadcast h' = broadcast h)
        \<and> (c \<notin> dom (clients h) \<longrightarrow> h' = h))"
proof (intro impI)
  assume inv: "c \<in> dom (clients h) \<longrightarrow> \<not> closed (send h c)"
  show "\<exists>h'. Run_step (Unregister c) t h = Inr h'
        \<and> Run_step (Unregister c) u h' = Inr h'
        \<and> Run [(Unregister c, t), (Unregister c, u)] h = Run [(Unregister c, t)] h
        \<and> c \<notin> dom (clients h')
        \<and> (c \<in> dom (clients h) \<longrightarrow>
              clients h' = (clients h)(c := None)
              \<and> send h' = (send h)(c := (send h c)\<lparr>closed := True\<rparr>)
              \<and> broadcast h' = broadcast h)
        \<and> (c \<notin> dom (clients h) \<longrightarrow> h' = h)"
  proof (cases "c \<in> dom (clients h)")
    case True
    then have op: "\<not> closed (send h c)" using inv by simp
    show ?thesis
      using True by (simp add: unregister_case_present[OF True op] unregister_case_absent)
  next
    case False
    then show ?thesis
      by (simp add: unregister_case_absent)
  qed
qed

theorem unregister_is_idempotent_witness:
  "\<not> closed (send (NewHub\<lparr>clients := [3 \<mapsto> True]\<rparr>) 3)
   \<and> Run [(Unregister 3, 1), (Unregister 3, 2)] (NewHub\<lparr>clients := [3 \<mapsto> True]\<rparr>)
       = Run [(Unregister 3, 1)] (NewHub\<lparr>clients := [3 \<mapsto> True]\<rparr>)
   \<and> (\<exists>h'. Run_step (Unregister 3) 1 (NewHub\<lparr>clients := [3 \<mapsto> True]\<rparr>) = Inr h'
         \<and> Run_step (Unregister 3) 2 h' = Inr h'
         \<and> clients h' = Map.empty \<and> closed (send h' 3))"
proof -
  let ?H = "NewHub\<lparr>clients := [3 \<mapsto> True]\<rparr>"
  have a: "\<not> closed (send ?H 3)"
    by (simp add: NewHub_def make_chan_def)
  have m: "3 \<in> dom (clients ?H)"
    by simp
  obtain h' where h': "Run_step (Unregister 3) 1 ?H = Inr h'"
      "Run_step (Unregister 3) 2 h' = Inr h'"
      "Run [(Unregister 3, 1), (Unregister 3, 2)] ?H = Run [(Unregister 3, 1)] ?H"
      "clients h' = (clients ?H)(3 := None)"
      "send h' = (send ?H)(3 := (send ?H 3)\<lparr>closed := True\<rparr>)"
    using unregister_is_idempotent[of 3 ?H 1 2] a m by blast
  have "clients h' = Map.empty" "closed (send h' 3)"
    by (simp_all add: h'(4,5))
  with a h'(1,2,3) show ?thesis by blast
qed

text \<open>
  C8. When the broadcast channel is open and holds as many messages as its capacity,
  \<^verbatim>\<open>BroadcastBarcode\<close> returns at once with the hub as it was but for one warning in
  the log: the new message is not in the channel, and the live set, every client
  channel and the broadcast channel are unchanged; the handler, which calls it,
  returns the same (its error is \<^verbatim>\<open>nil\<close>). The capacity \<^verbatim>\<open>NewHub\<close> gives the channel is
  256.
\<close>

theorem full_broadcast_channel_drops_newest:
  "(\<not> closed (broadcast h) \<and> cap (broadcast h) \<le> length (buf (broadcast h)) \<longrightarrow>
      BroadcastBarcode d t h =
        Inr (h\<lparr>logged := logged h @ [Log WarnLevel log_channel_full []]\<rparr>)
      \<and> HandleBarcode content t1 t2 h =
        Inr (h\<lparr>logged := logged h @ [Log WarnLevel log_channel_full []]\<rparr>)
      \<and> (\<exists>h'. BroadcastBarcode d t h = Inr h' \<and> clients h' = clients h \<and> send h' = send h
            \<and> broadcast h' = broadcast h))
   \<and> cap (broadcast NewHub) = 256"
  by (simp add: BroadcastBarcode_full HandleBarcode_def NewHub_def make_chan_def)

theorem full_broadcast_channel_drops_newest_witness:
  "\<not> closed (broadcast (NewHub\<lparr>broadcast :=
        \<lparr>buf = replicate 256 (barcodeMsg (ProcessBarcode ''12345678'' 5) 6), cap = 256,
         closed = False\<rparr>\<rparr>))
   \<and> cap (broadcast (NewHub\<lparr>broadcast :=
        \<lparr>buf = replicate 256 (barcodeMsg (ProcessBarcode ''12345678'' 5) 6), cap = 256,
         closed = False\<rparr>\<rparr>))
      \<le> length (buf (broadcast (NewHub\<lparr>broadcast :=
        \<lparr>buf = replicate 256 (barcodeMsg (ProcessBarcode ''12345678'' 5) 6), cap = 256,
         closed = False\<rparr>\<rparr>)))
   \<and> BroadcastBarcode (ProcessBarcode ''1234567890123'' 8) 9
        (NewHub\<lparr>broadcast :=
          \<lparr>buf = replicate 256 (barcodeMsg (ProcessBarcode ''12345678'' 5) 6), cap = 256,
           closed = False\<rparr>\<rparr>)
      = Inr (NewHub\<lparr>broadcast :=
          \<lparr>buf = replicate 256 (barcodeMsg (ProcessBarcode ''12345678'' 5) 6), cap = 256,
           closed = False\<rparr>,
          logged := [Log WarnLevel log_channel_full []]\<rparr>)"
proof -
  let ?H = "NewHub\<lparr>broadcast :=
        \<lparr>buf = replicate 256 (barcodeMsg (ProcessBarcode ''12345678'' 5) 6), cap = 256,
         closed = False\<rparr>\<rparr>"
  have a: "\<not> closed (broadcast ?H)" and b: "cap (broadcast ?H) \<le> length (buf (broadcast ?H))"
    by simp_all
  have "BroadcastBarcode (ProcessBarcode ''1234567890123'' 8) 9 ?H =
          Inr (?H\<lparr>logged := logged ?H @ [Log WarnLevel log_channel_full []]\<rparr>)"
    using full_broadcast_channel_drops_newest[of ?H "ProcessBarcode ''1234567890123'' 8" 9
        "[]" 0 0, THEN conjunct1] a b by blast
  then have "BroadcastBarcode (ProcessBarcode ''1234567890123'' 8) 9 ?H =
          Inr (?H\<lparr>logged := [Log WarnLevel log_channel_full []]\<rparr>)"
    by (simp add: NewHub_def)
  with a b show ?thesis by blast
qed

end
